theory Spec2Isabelle
  imports Complex_Main "HOL-Library.Sublist"
begin

section \<open>Values shared by the components\<close>

text \<open>
  A JavaScript \<open>number\<close> is an IEEE double. The code below only compares numbers with
  \<open><=\<close>, so a number is modelled by its mathematical value: a real, one of the two
  infinities, or NaN. \<open>num_le\<close> is JavaScript's \<open><=\<close>: every comparison with NaN is false.
\<close>

datatype number = Num real | PosInfinity | NegInfinity | NaN

fun num_le :: "number \<Rightarrow> number \<Rightarrow> bool" where
  "num_le NaN _ = False"
| "num_le _ NaN = False"
| "num_le NegInfinity _ = True"
| "num_le _ PosInfinity = True"
| "num_le PosInfinity _ = False"
| "num_le _ NegInfinity = False"
| "num_le (Num a) (Num b) = (a \<le> b)"

text \<open>
  A thrown value: an \<open>Error\<close> with its message, or anything else (JavaScript lets a
  program throw any value).
\<close>

datatype exn = Error string | NonError

text \<open>\<open>GrammarlyScores\<close> (schemas.ts, \<open>GrammarlyExtractSchema\<close>); \<open>null\<close> is \<open>None\<close>.\<close>

record GrammarlyScores =
  aiDetectionPercent :: "number option"
  plagiarismPercent :: "number option"
  overallScore :: "number option"
  score_notes :: string

section \<open>The threshold check\<close>

text \<open>
  \<open>thresholdsMet\<close> of the optimizer. The warning it logs when both scores are missing
  has no effect on the result and is left out.
\<close>

definition thresholdsMet :: "GrammarlyScores \<Rightarrow> number \<Rightarrow> number \<Rightarrow> bool" where
  "thresholdsMet scores maxAiPercent maxPlagiarismPercent =
     (let aiUnavailable = (aiDetectionPercent scores = None);
          plagiarismUnavailable = (plagiarismPercent scores = None)
      in if aiUnavailable \<and> plagiarismUnavailable then False
         else
           let aiOk = (case aiDetectionPercent scores of
                         None \<Rightarrow> True
                       | Some v \<Rightarrow> num_le v maxAiPercent);
               plagiarismOk = (case plagiarismPercent scores of
                                 None \<Rightarrow> True
                               | Some v \<Rightarrow> num_le v maxPlagiarismPercent)
           in aiOk \<and> plagiarismOk)"

section \<open>Model tier selection\<close>

datatype model_tier = Sonnet | Opus

text \<open>
  Modelled from the spec: \<open>chooseClaudeModel\<close> of \<open>src/llm/claudeClient\<close> is not among
  the sources (only its unit test is). The spec: "text >12000 chars OR iterations >8
  selects the higher-capability tier, else the standard tier"; the test names the tiers
  \<open>opus\<close> and \<open>sonnet\<close>.
\<close>

definition chooseClaudeModel :: "nat \<Rightarrow> nat \<Rightarrow> model_tier" where
  "chooseClaudeModel textLength iterations =
     (if textLength > 12000 \<or> iterations > 8 then Opus else Sonnet)"

section \<open>Sequential programs and their collaborators\<close>

text \<open>
  The browser, the automation agent and the remote services are collaborators outside the
  program. A program is run against the sequence of responses each collaborator gives:
  the n-th call of an operation receives the n-th response of that operation, a value or a
  thrown exception. The state threaded through a program is the log of the calls made so
  far, with their arguments. The program awaits every call before it makes the next, so
  each run of the code against a real collaborator is a run of this model against the
  responses that collaborator gave.
\<close>

type_synonym ('c, 'a) prog = "'c list \<Rightarrow> (exn + 'a) \<times> 'c list"

definition ret :: "'a \<Rightarrow> ('c, 'a) prog" where
  "ret x = (\<lambda>calls. (Inr x, calls))"

definition bindE :: "('c, 'a) prog \<Rightarrow> ('a \<Rightarrow> ('c, 'b) prog) \<Rightarrow> ('c, 'b) prog" where
  "bindE m f = (\<lambda>calls. case m calls of
                         (Inl e, calls') \<Rightarrow> (Inl e, calls')
                       | (Inr x, calls') \<Rightarrow> f x calls')"

definition tryCatch :: "('c, 'a) prog \<Rightarrow> (exn \<Rightarrow> ('c, 'a) prog) \<Rightarrow> ('c, 'a) prog" where
  "tryCatch m handler = (\<lambda>calls. case m calls of
                                  (Inl e, calls') \<Rightarrow> handler e calls'
                                | (Inr x, calls') \<Rightarrow> (Inr x, calls'))"

definition call :: "('c \<Rightarrow> bool) \<Rightarrow> 'c \<Rightarrow> (nat \<Rightarrow> exn + 'a) \<Rightarrow> ('c, 'a) prog" where
  "call kind c responses = (\<lambda>calls. (responses (length (filter kind calls)), calls @ [c]))"

text \<open>How a block of a function body ends: with a \<open>return\<close>, or by running off its end.\<close>

datatype 'a flow = Return 'a | Continue

section \<open>The browser and the automation agent\<close>

text \<open>An element reported by \<open>observe\<close>; the code guards against a missing description.\<close>

record ObservedElement =
  description :: "string option"
  selector :: "string option"
  suggestedMethod :: "string option"
  arguments :: "string list option"

record AuthStatus =
  loggedIn :: bool
  currentUrl :: string

datatype act_arg = Element ObservedElement | Instruction string

datatype extraction = PrimaryExtraction | FallbackExtraction

datatype call =
    Pages
  | Url
  | Goto string string
  | Observe string
  | Act act_arg
  | IsVisible string
  | Fill string string
  | CheckAuth
  | Extract extraction
  | Sleep nat

fun isPages :: "call \<Rightarrow> bool" where
  "isPages Pages = True"
| "isPages _ = False"

fun isUrl :: "call \<Rightarrow> bool" where
  "isUrl Url = True"
| "isUrl _ = False"

fun isGoto :: "call \<Rightarrow> bool" where
  "isGoto (Goto _ _) = True"
| "isGoto _ = False"

fun isObserve :: "call \<Rightarrow> bool" where
  "isObserve (Observe _) = True"
| "isObserve _ = False"

fun isAct :: "call \<Rightarrow> bool" where
  "isAct (Act _) = True"
| "isAct _ = False"

fun isIsVisible :: "call \<Rightarrow> bool" where
  "isIsVisible (IsVisible _) = True"
| "isIsVisible _ = False"

fun isFill :: "call \<Rightarrow> bool" where
  "isFill (Fill _ _) = True"
| "isFill _ = False"

fun isCheckAuth :: "call \<Rightarrow> bool" where
  "isCheckAuth CheckAuth = True"
| "isCheckAuth _ = False"

fun isExtract :: "call \<Rightarrow> bool" where
  "isExtract (Extract _) = True"
| "isExtract _ = False"

text \<open>
  The responses of the Stagehand instance and its page. \<open>pagesR\<close> tells whether
  \<open>stagehand.context.pages()[0]\<close> is a page. \<open>checkAuthR\<close> are the results of
  \<open>checkGrammarlyAuthStatus\<close>, which lives in \<open>grammarlyTask.ts\<close> and is a collaborator
  of the login module (its unit test replaces it by a mock in the same way).
\<close>

record browser =
  pagesR :: "nat \<Rightarrow> exn + bool"
  urlR :: "nat \<Rightarrow> exn + string"
  gotoR :: "nat \<Rightarrow> exn + unit"
  observeR :: "nat \<Rightarrow> exn + ObservedElement list"
  actR :: "nat \<Rightarrow> exn + unit"
  isVisibleR :: "nat \<Rightarrow> exn + bool"
  fillR :: "nat \<Rightarrow> exn + unit"
  checkAuthR :: "nat \<Rightarrow> exn + AuthStatus"
  extractR :: "nat \<Rightarrow> exn + GrammarlyScores"

definition pages :: "browser \<Rightarrow> (call, bool) prog" where
  "pages env = call isPages Pages (pagesR env)"

definition pageUrl :: "browser \<Rightarrow> (call, string) prog" where
  "pageUrl env = call isUrl Url (urlR env)"

definition goto :: "browser \<Rightarrow> string \<Rightarrow> string \<Rightarrow> (call, unit) prog" where
  "goto env url waitUntil = call isGoto (Goto url waitUntil) (gotoR env)"

definition observe :: "browser \<Rightarrow> string \<Rightarrow> (call, ObservedElement list) prog" where
  "observe env instruction = call isObserve (Observe instruction) (observeR env)"

definition act :: "browser \<Rightarrow> act_arg \<Rightarrow> (call, unit) prog" where
  "act env a = call isAct (Act a) (actR env)"

definition isVisible :: "browser \<Rightarrow> string \<Rightarrow> (call, bool) prog" where
  "isVisible env sel = call isIsVisible (IsVisible sel) (isVisibleR env)"

definition fill :: "browser \<Rightarrow> string \<Rightarrow> string \<Rightarrow> (call, unit) prog" where
  "fill env sel v = call isFill (Fill sel v) (fillR env)"

definition checkGrammarlyAuthStatus :: "browser \<Rightarrow> (call, AuthStatus) prog" where
  "checkGrammarlyAuthStatus env = call isCheckAuth CheckAuth (checkAuthR env)"

definition stagehandExtract :: "browser \<Rightarrow> extraction \<Rightarrow> (call, GrammarlyScores) prog" where
  "stagehandExtract env query = call isExtract (Extract query) (extractR env)"

text \<open>\<open>sleep\<close> (utils) resolves after the delay and never rejects.\<close>

definition sleep :: "nat \<Rightarrow> (call, unit) prog" where
  "sleep ms = (\<lambda>calls. (Inr (), calls @ [Sleep ms]))"

section \<open>Strings\<close>

text \<open>
  Strings are HOL strings. \<open>str_includes\<close> is \<open>String.prototype.includes\<close>, \<open>toLowerCase\<close>
  lowers the letters A to Z, and \<open>join\<close> is \<open>Array.prototype.join\<close>.
\<close>

definition str_includes :: "string \<Rightarrow> string \<Rightarrow> bool" where
  "str_includes s search = sublist search s"

definition toLowerChar :: "char \<Rightarrow> char" where
  "toLowerChar c =
     (let n = (of_char c :: nat) in if 65 \<le> n \<and> n \<le> 90 then char_of (n + 32) else c)"

definition toLowerCase :: "string \<Rightarrow> string" where
  "toLowerCase s = map toLowerChar s"

fun join :: "string \<Rightarrow> string list \<Rightarrow> string" where
  "join sep [] = []"
| "join sep [x] = x"
| "join sep (x # y # ys) = x @ sep @ join sep (y # ys)"

section \<open>Automatic login (grammarlyLogin.ts)\<close>

record GrammarlyCredentials =
  username :: string
  password :: string

record LoginAttemptResult =
  success :: bool
  error :: "string option"
  invalidCredentials :: "bool option"
  captchaDetected :: "bool option"
  rateLimited :: "bool option"

text \<open>
  \<open>Partial<LoginAttemptResult>\<close> as \<open>detectLoginFailure\<close> builds it: none of its results
  has a \<open>success\<close> field.
\<close>

record LoginFailure =
  f_error :: "string option"
  f_invalidCredentials :: "bool option"
  f_captchaDetected :: "bool option"
  f_rateLimited :: "bool option"

text \<open>
  \<open>AutoLoginOptions\<close>. The retry budget \<open>maxRetries\<close> is an integer here, as its
  documentation says ("number of retry attempts"). The source's type is \<open>number\<close>: a
  budget that is not an integer is outside this model, and the statements below about the
  retry budget are statements about integer budgets.
\<close>

record AutoLoginOptions =
  opt_timeoutMs :: "number option"
  opt_maxRetries :: "int option"

definition DEFAULT_MAX_RETRIES :: int where
  "DEFAULT_MAX_RETRIES = 1"

text \<open>The object \<open>{}\<close>.\<close>

definition noFailure :: LoginFailure where
  "noFailure = \<lparr>f_error = None, f_invalidCredentials = None,
                 f_captchaDetected = None, f_rateLimited = None\<rparr>"

text \<open>The object \<open>{ success: false, ...failure }\<close>.\<close>

definition spreadFailure :: "LoginFailure \<Rightarrow> LoginAttemptResult" where
  "spreadFailure failure =
     \<lparr>success = False, error = f_error failure,
      invalidCredentials = f_invalidCredentials failure,
      captchaDetected = f_captchaDetected failure,
      rateLimited = f_rateLimited failure\<rparr>"

text \<open>The object \<open>{ success: false, error: message }\<close>.\<close>

definition failedWith :: "string \<Rightarrow> LoginAttemptResult" where
  "failedWith message =
     \<lparr>success = False, error = Some message, invalidCredentials = None,
      captchaDetected = None, rateLimited = None\<rparr>"

definition loginSucceeded :: LoginAttemptResult where
  "loginSucceeded =
     \<lparr>success = True, error = None, invalidCredentials = None,
      captchaDetected = None, rateLimited = None\<rparr>"

text \<open>JavaScript truthiness of an optional string and of an optional boolean.\<close>

definition truthyString :: "string option \<Rightarrow> bool" where
  "truthyString v = (case v of None \<Rightarrow> False | Some s \<Rightarrow> s \<noteq> [])"

definition truthyBool :: "bool option \<Rightarrow> bool" where
  "truthyBool v = (v = Some True)"

text \<open>The keyword classification inside \<open>detectLoginFailure\<close>, in the order of the code.\<close>

definition classifyIndicators :: "ObservedElement list \<Rightarrow> LoginFailure" where
  "classifyIndicators errorIndicators =
     (if length errorIndicators = 0 then noFailure
      else
        let errorText =
              join '' '' (map (\<lambda>e. case description e of
                                       Some d \<Rightarrow> toLowerCase d
                                     | None \<Rightarrow> []) errorIndicators)
        in if str_includes errorText ''captcha'' \<or> str_includes errorText ''verify'' \<or>
              str_includes errorText ''robot'' \<or> str_includes errorText ''not a robot''
           then noFailure\<lparr>f_captchaDetected := Some True,
                            f_error := Some ''CAPTCHA challenge detected''\<rparr>
           else if str_includes errorText ''too many'' \<or> str_includes errorText ''rate'' \<or>
                   str_includes errorText ''try again later'' \<or>
                   str_includes errorText ''temporarily blocked''
           then noFailure\<lparr>f_rateLimited := Some True,
                            f_error := Some ''Rate limit triggered''\<rparr>
           else if str_includes errorText ''invalid'' \<or> str_includes errorText ''incorrect'' \<or>
                   str_includes errorText ''wrong'' \<or> str_includes errorText ''not found'' \<or>
                   str_includes errorText ''doesn't match''
           then noFailure\<lparr>f_invalidCredentials := Some True,
                            f_error := Some ''Invalid credentials''\<rparr>
           else noFailure\<lparr>f_error := Some ''Login error detected''\<rparr>)"

definition detectQuery :: string where
  "detectQuery =
     ''Find any error messages about invalid credentials, wrong password, '' @
     ''account locked, CAPTCHA challenges, rate limits, or 'too many attempts' warnings''"

text \<open>
  \<open>detectLoginFailure\<close>: the page lookup is outside its \<open>try\<close>, the observation and the
  classification are inside, and the \<open>catch\<close> answers \<open>{}\<close>.
\<close>

definition detectLoginFailure :: "browser \<Rightarrow> (call, LoginFailure) prog" where
  "detectLoginFailure env =
     bindE (pages env) (\<lambda>page.
       if \<not> page then ret noFailure
       else tryCatch
              (bindE (observe env detectQuery)
                 (\<lambda>errorIndicators. ret (classifyIndicators errorIndicators)))
              (\<lambda>_. ret noFailure))"

definition emailInputs :: "string list" where
  "emailInputs =
     [''input[type=\"email\"]'', ''input[type=\"text\"]'',
      ''input[name*=\"email\"]'', ''input[name*=\"username\"]'']"

definition passwordSelector :: string where
  "passwordSelector = ''input[type=\"password\"]''"

definition signinUrl :: string where
  "signinUrl = ''https://www.grammarly.com/signin''"

definition emailOptionQuery :: string where
  "emailOptionQuery =
     ''Find the 'Log in with email' button or 'Continue with email' option''"

definition emailFieldQuery :: string where
  "emailFieldQuery =
     ''Find the email or username input field for logging into Grammarly''"

definition passwordFieldQuery :: string where
  "passwordFieldQuery = ''Find the password input field''"

definition typeEmailInstruction :: string where
  "typeEmailInstruction = ''Click on the email input field and type the email''"

definition continueInstruction :: string where
  "continueInstruction =
     ''Click the 'Continue' or 'Next' button to proceed after entering email''"

definition submitInstruction :: string where
  "submitInstruction =
     ''Click the 'Log in', 'Sign in', or submit button to complete login''"

text \<open>
  The loop over \<open>emailInputs\<close>: the first selector whose element is visible is filled with
  the user name; an exception of \<open>isVisible\<close> or of \<open>fill\<close> moves on to the next selector.
  The result is \<open>emailFilled\<close>.
\<close>

fun fillEmailInput :: "browser \<Rightarrow> string \<Rightarrow> string list \<Rightarrow> (call, bool) prog" where
  "fillEmailInput env user [] calls = (Inr False, calls)"
| "fillEmailInput env user (sel # rest) calls =
     (case isVisible env sel calls of
        (Inl _, calls1) \<Rightarrow> fillEmailInput env user rest calls1
      | (Inr visible, calls1) \<Rightarrow>
          if visible then
            (case fill env sel user calls1 of
               (Inl _, calls2) \<Rightarrow> fillEmailInput env user rest calls2
             | (Inr _, calls2) \<Rightarrow> (Inr True, calls2))
          else fillEmailInput env user rest calls1)"

text \<open>Step 1: navigate to the login page unless the page is already there.\<close>

definition navigateToLogin :: "browser \<Rightarrow> (call, unit) prog" where
  "navigateToLogin env =
     bindE (pageUrl env) (\<lambda>currentUrl.
       if \<not> str_includes currentUrl ''grammarly.com/signin'' \<and>
          \<not> str_includes currentUrl ''grammarly.com/login''
       then bindE (goto env signinUrl ''load'') (\<lambda>_. sleep 2000)
       else ret ())"

text \<open>Step 2: the optional "log in with email" button.\<close>

definition chooseEmailLogin :: "browser \<Rightarrow> (call, unit) prog" where
  "chooseEmailLogin env =
     bindE (observe env emailOptionQuery) (\<lambda>emailLoginButton.
       case emailLoginButton of
         [] \<Rightarrow> ret ()
       | firstEmailButton # _ \<Rightarrow>
           bindE (act env (Element firstEmailButton)) (\<lambda>_. sleep 1500))"

text \<open>Steps 3 and 4: fill the email field and submit it.\<close>

definition enterEmail :: "browser \<Rightarrow> GrammarlyCredentials \<Rightarrow> (call, unit) prog" where
  "enterEmail env credentials =
     bindE (observe env emailFieldQuery) (\<lambda>_.
     bindE (fillEmailInput env (username credentials) emailInputs) (\<lambda>emailFilled.
     bindE (if \<not> emailFilled then act env (Instruction typeEmailInstruction) else ret ()) (\<lambda>_.
     bindE (sleep 500) (\<lambda>_.
     bindE (act env (Instruction continueInstruction)) (\<lambda>_.
     sleep 2000)))))"

text \<open>
  Steps 5 and 6: fill the password through the locator and submit. Without a password
  field the function returns from inside the loop.
\<close>

definition enterPassword ::
  "browser \<Rightarrow> GrammarlyCredentials \<Rightarrow> (call, LoginAttemptResult flow) prog" where
  "enterPassword env credentials =
     bindE (observe env passwordFieldQuery) (\<lambda>passwordObservation.
       if length passwordObservation = 0 then
         bindE (detectLoginFailure env) (\<lambda>failure.
           if truthyString (f_error failure) then ret (Return (spreadFailure failure))
           else ret (Return (failedWith ''Password field not found'')))
       else
         bindE (fill env passwordSelector (password credentials)) (\<lambda>_.
         bindE (sleep 500) (\<lambda>_.
         bindE (act env (Instruction submitInstruction)) (\<lambda>_.
         bindE (sleep 3000) (\<lambda>_.
         ret Continue)))))"

text \<open>Steps 1 to 6 of one attempt.\<close>

definition loginSteps ::
  "browser \<Rightarrow> GrammarlyCredentials \<Rightarrow> (call, LoginAttemptResult flow) prog" where
  "loginSteps env credentials =
     bindE (navigateToLogin env) (\<lambda>_.
     bindE (chooseEmailLogin env) (\<lambda>_.
     bindE (enterEmail env credentials) (\<lambda>_.
     enterPassword env credentials)))"

definition backoffDelay :: "nat \<Rightarrow> nat" where
  "backoffDelay attempt = min (2000 * 2 ^ attempt) 30000"

text \<open>
  Step 7 and what follows it: the authentication check, the classification of a failure,
  and the delay before the next attempt.
\<close>

definition verifyLogin :: "browser \<Rightarrow> int \<Rightarrow> nat \<Rightarrow> (call, LoginAttemptResult flow) prog" where
  "verifyLogin env maxRetries attempt =
     bindE (checkGrammarlyAuthStatus env) (\<lambda>authStatus.
       if loggedIn authStatus then ret (Return loginSucceeded)
       else
         bindE (detectLoginFailure env) (\<lambda>failure.
           if truthyBool (f_invalidCredentials failure) \<or>
              truthyBool (f_captchaDetected failure) \<or>
              truthyBool (f_rateLimited failure)
           then ret (Return (spreadFailure failure))
           else
             bindE (if int attempt < maxRetries then sleep (backoffDelay attempt) else ret ())
               (\<lambda>_. ret Continue)))"

text \<open>The \<open>try\<close> block of the loop body.\<close>

definition tryBlock ::
  "browser \<Rightarrow> GrammarlyCredentials \<Rightarrow> int \<Rightarrow> nat \<Rightarrow> (call, LoginAttemptResult flow) prog" where
  "tryBlock env credentials maxRetries attempt =
     bindE (loginSteps env credentials) (\<lambda>r.
       case r of
         Return result \<Rightarrow> ret (Return result)
       | Continue \<Rightarrow> verifyLogin env maxRetries attempt)"

text \<open>The \<open>catch\<close> block of the loop body.\<close>

definition catchBlock :: "int \<Rightarrow> nat \<Rightarrow> exn \<Rightarrow> (call, LoginAttemptResult flow) prog" where
  "catchBlock maxRetries attempt e =
     (if int attempt \<ge> maxRetries
      then ret (Return (failedWith (case e of Error message \<Rightarrow> message
                                            | NonError \<Rightarrow> ''Unknown error'')))
      else bindE (sleep (backoffDelay attempt)) (\<lambda>_. ret Continue))"

definition attemptOnce ::
  "browser \<Rightarrow> GrammarlyCredentials \<Rightarrow> int \<Rightarrow> nat \<Rightarrow> (call, LoginAttemptResult flow) prog" where
  "attemptOnce env credentials maxRetries attempt =
     tryCatch (tryBlock env credentials maxRetries attempt) (catchBlock maxRetries attempt)"

text \<open>The loop \<open>for (attempt = 0; attempt <= maxRetries; attempt++)\<close> and the return after it.\<close>

function loginLoop ::
  "browser \<Rightarrow> GrammarlyCredentials \<Rightarrow> int \<Rightarrow> nat \<Rightarrow> (call, LoginAttemptResult) prog" where
  "loginLoop env credentials maxRetries attempt calls =
     (if int attempt \<le> maxRetries then
        (case attemptOnce env credentials maxRetries attempt calls of
           (Inl e, calls') \<Rightarrow> (Inl e, calls')
         | (Inr (Return result), calls') \<Rightarrow> (Inr result, calls')
         | (Inr Continue, calls') \<Rightarrow> loginLoop env credentials maxRetries (attempt + 1) calls')
      else (Inr (failedWith ''Login failed after all retry attempts''), calls))"
  by pat_completeness auto
termination
  by (relation "measure (\<lambda>(env, credentials, maxRetries, attempt, calls).
                  nat (maxRetries + 1 - int attempt))") auto

declare loginLoop.simps [simp del]

text \<open>\<open>options?.maxRetries ?? DEFAULT_MAX_RETRIES\<close>.\<close>

definition resolveMaxRetries :: "AutoLoginOptions option \<Rightarrow> int" where
  "resolveMaxRetries options =
     (case options of
        None \<Rightarrow> DEFAULT_MAX_RETRIES
      | Some opts \<Rightarrow> (case opt_maxRetries opts of
                        None \<Rightarrow> DEFAULT_MAX_RETRIES
                      | Some m \<Rightarrow> m))"

definition attemptGrammarlyLogin ::
  "browser \<Rightarrow> GrammarlyCredentials \<Rightarrow> AutoLoginOptions option \<Rightarrow> (call, LoginAttemptResult) prog" where
  "attemptGrammarlyLogin env credentials options =
     (let maxRetries = resolveMaxRetries options
      in bindE (pages env) (\<lambda>page.
           if \<not> page then ret (failedWith ''No page available in Stagehand context'')
           else loginLoop env credentials maxRetries 0))"

section \<open>The scoring task: text injection and score extraction\<close>

text \<open>
  The maximum length of the text and the selector of the editor, as the unit test of the
  scoring task names them (\<open>MAX_TEXT_LENGTH (8000)\<close>, \<open>[contenteditable="true"]\<close>).
\<close>

definition MAX_TEXT_LENGTH :: nat where
  "MAX_TEXT_LENGTH = 8000"

definition editorSelector :: string where
  "editorSelector = ''[contenteditable=\"true\"]''"

text \<open>
  Modelled from the spec: the text injection of \<open>runStagehandGrammarlyTask\<close>
  (\<open>src/browser/stagehand/grammarlyTask.ts\<close>), which is not among the sources; only its
  unit test is. The spec: "Truncates input text to a fixed maximum length (8000
  characters) before any UI interaction" and "the text is always injected via a direct
  content-editable-region fill operation".
\<close>

definition injectText :: "browser \<Rightarrow> string \<Rightarrow> (call, unit) prog" where
  "injectText env text' = fill env editorSelector (take MAX_TEXT_LENGTH text')"

text \<open>
  Modelled from the spec: the annotation of the notes of a fallback result, part of
  \<open>runStagehandGrammarlyTask\<close>, which is not among the sources. The spec: "annotate the
  result's notes field to indicate partial/fallback extraction occurred"; the unit test
  expects the notes of such a result to contain "partial extraction". The marker is added
  after the notes the fallback extracted.
\<close>

definition partialExtractionMarker :: string where
  "partialExtractionMarker = ''partial extraction''"

definition annotatePartial :: "string \<Rightarrow> string" where
  "annotatePartial n = n @ '' ('' @ partialExtractionMarker @ '')''"

text \<open>
  Modelled from the spec: the extraction step of \<open>runStagehandGrammarlyTask\<close>, which is
  not among the sources. The spec: "issue a structured-extraction query against the
  page. On failure, attempt exactly one fallback extraction with a simplified
  schema/instruction; on success, annotate the result's notes field to indicate
  partial/fallback extraction occurred. If the fallback also fails, propagate the original
  extraction error (not the fallback's)".
\<close>

definition extractScores :: "browser \<Rightarrow> (call, GrammarlyScores) prog" where
  "extractScores env =
     tryCatch (stagehandExtract env PrimaryExtraction)
       (\<lambda>originalError.
          tryCatch
            (bindE (stagehandExtract env FallbackExtraction)
               (\<lambda>partial. ret (partial\<lparr>score_notes := annotatePartial (score_notes partial)\<rparr>)))
            (\<lambda>fallbackError calls. (Inl originalError, calls)))"

section \<open>The optimization loop\<close>

datatype GrammarlyOptimizeMode = ScoreOnly | Optimize | Analyze

datatype RewriterTone = Neutral | Formal | Informal | Academic | Custom

record GrammarlyOptimizeInput =
  input_text :: string
  mode :: GrammarlyOptimizeMode
  max_ai_percent :: number
  max_plagiarism_percent :: number
  max_iterations :: int
  tone :: RewriterTone
  domain_hint :: "string option"
  custom_instructions :: "string option"

record HistoryEntry =
  h_iteration :: int
  h_ai_detection_percent :: "number option"
  h_plagiarism_percent :: "number option"
  h_note :: string

record GrammarlyOptimizeResult =
  final_text :: string
  ai_detection_percent :: "number option"
  plagiarism_percent :: "number option"
  iterations_used :: int
  thresholds_met :: bool
  history :: "HistoryEntry list"
  result_notes :: string

record RewriteResult =
  rewrittenText :: string
  reasoning :: string

record RewriteArgs =
  originalText :: string
  lastAiPercent :: "number option"
  lastPlagiarismPercent :: "number option"
  targetMaxAiPercent :: number
  targetMaxPlagiarismPercent :: number
  rw_tone :: RewriterTone
  domainHint :: "string option"
  customInstructions :: "string option"
  rw_maxIterations :: int

record SummarizeArgs =
  sm_mode :: GrammarlyOptimizeMode
  sm_iterationsUsed :: int
  sm_thresholdsMet :: bool
  sm_history :: "HistoryEntry list"
  finalText :: string
  sm_maxAiPercent :: number
  sm_maxPlagiarismPercent :: number

record AnalyzeArgs =
  an_text :: string
  an_aiPercent :: "number option"
  an_plagiarismPercent :: "number option"
  an_maxAiPercent :: number
  an_maxPlagiarismPercent :: number
  an_tone :: RewriterTone
  an_domainHint :: "string option"

text \<open>
  The messages passed to the progress callback; \<open>Rewriting i n\<close> and \<open>Rescoring i n\<close> stand
  for the two messages of iteration \<open>i\<close> of \<open>n\<close>.
\<close>

datatype progress_message =
    CreatingSession
  | InitialScoring
  | ScoringComplete
  | AnalyzingText
  | AnalysisComplete
  | StartingLoop
  | Rewriting int int
  | Rescoring int int
  | GeneratingSummary
  | OptimizationComplete

datatype service_call =
    Progress progress_message real
  | CreateClient
  | CreateSession
  | ScoreTask string string
  | AnalyzeText AnalyzeArgs
  | RewriteText RewriteArgs
  | Summarize SummarizeArgs
  | DeleteSession string

fun isProgress :: "service_call \<Rightarrow> bool" where
  "isProgress (Progress _ _) = True"
| "isProgress _ = False"

fun isCreateClient :: "service_call \<Rightarrow> bool" where
  "isCreateClient CreateClient = True"
| "isCreateClient _ = False"

fun isCreateSession :: "service_call \<Rightarrow> bool" where
  "isCreateSession CreateSession = True"
| "isCreateSession _ = False"

fun isScoreTask :: "service_call \<Rightarrow> bool" where
  "isScoreTask (ScoreTask _ _) = True"
| "isScoreTask _ = False"

fun isAnalyzeText :: "service_call \<Rightarrow> bool" where
  "isAnalyzeText (AnalyzeText _) = True"
| "isAnalyzeText _ = False"

fun isRewriteText :: "service_call \<Rightarrow> bool" where
  "isRewriteText (RewriteText _) = True"
| "isRewriteText _ = False"

fun isSummarize :: "service_call \<Rightarrow> bool" where
  "isSummarize (Summarize _) = True"
| "isSummarize _ = False"

fun isDeleteSession :: "service_call \<Rightarrow> bool" where
  "isDeleteSession (DeleteSession _) = True"
| "isDeleteSession _ = False"

text \<open>
  The responses of the optimizer's collaborators: the optional progress callback (\<open>None\<close>
  when the caller passes none), the Browser Use client and its sessions, the scoring task
  and the three Claude calls. The application configuration is passed through to them
  unchanged and is left out.
\<close>

record services =
  onProgressR :: "(nat \<Rightarrow> exn + unit) option"
  createClientR :: "nat \<Rightarrow> exn + unit"
  createSessionR :: "nat \<Rightarrow> exn + string"
  scoreTaskR :: "nat \<Rightarrow> exn + GrammarlyScores"
  analyzeR :: "nat \<Rightarrow> exn + string"
  rewriteR :: "nat \<Rightarrow> exn + RewriteResult"
  summarizeR :: "nat \<Rightarrow> exn + string"
  deleteSessionR :: "nat \<Rightarrow> exn + unit"

text \<open>\<open>await onProgress?.(message, progress)\<close>.\<close>

definition onProgress :: "services \<Rightarrow> progress_message \<Rightarrow> real \<Rightarrow> (service_call, unit) prog" where
  "onProgress env message progress =
     (case onProgressR env of
        None \<Rightarrow> ret ()
      | Some responses \<Rightarrow> call isProgress (Progress message progress) responses)"

definition createBrowserUseClient :: "services \<Rightarrow> (service_call, unit) prog" where
  "createBrowserUseClient env = call isCreateClient CreateClient (createClientR env)"

definition createGrammarlySession :: "services \<Rightarrow> (service_call, string) prog" where
  "createGrammarlySession env = call isCreateSession CreateSession (createSessionR env)"

definition runGrammarlyScoreTask ::
  "services \<Rightarrow> string \<Rightarrow> string \<Rightarrow> (service_call, GrammarlyScores) prog" where
  "runGrammarlyScoreTask env sessionId text' =
     call isScoreTask (ScoreTask sessionId text') (scoreTaskR env)"

definition analyzeTextWithClaude :: "services \<Rightarrow> AnalyzeArgs \<Rightarrow> (service_call, string) prog" where
  "analyzeTextWithClaude env args = call isAnalyzeText (AnalyzeText args) (analyzeR env)"

definition rewriteTextWithClaude ::
  "services \<Rightarrow> RewriteArgs \<Rightarrow> (service_call, RewriteResult) prog" where
  "rewriteTextWithClaude env args = call isRewriteText (RewriteText args) (rewriteR env)"

definition summarizeOptimizationWithClaude ::
  "services \<Rightarrow> SummarizeArgs \<Rightarrow> (service_call, string) prog" where
  "summarizeOptimizationWithClaude env args = call isSummarize (Summarize args) (summarizeR env)"

definition deleteSession :: "services \<Rightarrow> string \<Rightarrow> (service_call, unit) prog" where
  "deleteSession env sessionId = call isDeleteSession (DeleteSession sessionId) (deleteSessionR env)"

text \<open>The local variables of \<open>runGrammarlyOptimization\<close> that the loop updates.\<close>

record loop_state =
  currentText :: string
  lastScores :: GrammarlyScores
  iterationsUsed :: int
  reachedThresholds :: bool
  historyEntries :: "HistoryEntry list"

definition historyEntry :: "int \<Rightarrow> GrammarlyScores \<Rightarrow> string \<Rightarrow> HistoryEntry" where
  "historyEntry iteration scores note' =
     \<lparr>h_iteration = iteration,
      h_ai_detection_percent = aiDetectionPercent scores,
      h_plagiarism_percent = plagiarismPercent scores,
      h_note = note'\<rparr>"

text \<open>The body of the loop for one value of \<open>iteration\<close>, up to the test for \<open>break\<close>.\<close>

definition optimizeIteration ::
  "services \<Rightarrow> GrammarlyOptimizeInput \<Rightarrow> string \<Rightarrow> int \<Rightarrow> loop_state \<Rightarrow>
     (service_call, loop_state) prog" where
  "optimizeIteration env input sessionId iteration st =
     (let maxIterations = max_iterations input in
      bindE (onProgress env (Rewriting iteration maxIterations)
               (15 + (real_of_int (iteration - 1) / real_of_int maxIterations) * 70)) (\<lambda>_.
      bindE (rewriteTextWithClaude env
               \<lparr>originalText = currentText st,
                lastAiPercent = aiDetectionPercent (lastScores st),
                lastPlagiarismPercent = plagiarismPercent (lastScores st),
                targetMaxAiPercent = max_ai_percent input,
                targetMaxPlagiarismPercent = max_plagiarism_percent input,
                rw_tone = tone input,
                domainHint = domain_hint input,
                customInstructions = custom_instructions input,
                rw_maxIterations = maxIterations\<rparr>) (\<lambda>rewriteResult.
      bindE (onProgress env (Rescoring iteration maxIterations)
               (15 + (real_of_int iteration / real_of_int maxIterations) * 70)) (\<lambda>_.
      bindE (runGrammarlyScoreTask env sessionId (rewrittenText rewriteResult)) (\<lambda>scores.
      ret \<lparr>currentText = rewrittenText rewriteResult,
           lastScores = scores,
           iterationsUsed = iteration,
           reachedThresholds =
             thresholdsMet scores (max_ai_percent input) (max_plagiarism_percent input),
           historyEntries =
             historyEntries st @ [historyEntry iteration scores (reasoning rewriteResult)]\<rparr>)))))"

text \<open>
  The loop \<open>for (iteration = 1; iteration <= maxIterations; iteration += 1)\<close> with its
  \<open>break\<close> when the thresholds are reached.
\<close>

function optimizeLoop ::
  "services \<Rightarrow> GrammarlyOptimizeInput \<Rightarrow> string \<Rightarrow> int \<Rightarrow> loop_state \<Rightarrow>
     (service_call, loop_state) prog" where
  "optimizeLoop env input sessionId iteration st calls =
     (if iteration \<le> max_iterations input then
        (case optimizeIteration env input sessionId iteration st calls of
           (Inl e, calls') \<Rightarrow> (Inl e, calls')
         | (Inr st', calls') \<Rightarrow>
             if reachedThresholds st' then (Inr st', calls')
             else optimizeLoop env input sessionId (iteration + 1) st' calls')
      else (Inr st, calls))"
  by pat_completeness auto
termination
  by (relation "measure (\<lambda>(env, input, sessionId, iteration, st, calls).
                  nat (max_iterations input + 1 - iteration))") auto

declare optimizeLoop.simps [simp del]

text \<open>The \<open>try\<close> block after the session has been created.\<close>

definition scoreAndOptimize ::
  "services \<Rightarrow> GrammarlyOptimizeInput \<Rightarrow> string \<Rightarrow> (service_call, GrammarlyOptimizeResult) prog" where
  "scoreAndOptimize env input sessionId =
     (let currentText0 = input_text input;
          maxAiPercent = max_ai_percent input;
          maxPlagiarismPercent = max_plagiarism_percent input
      in
      bindE (onProgress env InitialScoring 10) (\<lambda>_.
      bindE (runGrammarlyScoreTask env sessionId currentText0) (\<lambda>baseline.
        let history0 =
              [historyEntry 0 baseline
                 ''Baseline Grammarly scores on original text (iteration 0).'']
        in
        if mode input = ScoreOnly then
          bindE (onProgress env ScoringComplete 100) (\<lambda>_.
            let reached = thresholdsMet baseline maxAiPercent maxPlagiarismPercent in
            ret \<lparr>final_text = currentText0,
                 ai_detection_percent = aiDetectionPercent baseline,
                 plagiarism_percent = plagiarismPercent baseline,
                 iterations_used = 0,
                 thresholds_met = reached,
                 history = history0,
                 result_notes =
                   (if reached
                    then ''Score-only run: original text already meets configured AI and plagiarism thresholds.''
                    else ''Score-only run: thresholds not met or scores unavailable; no rewriting performed.'')\<rparr>)
        else if mode input = Analyze then
          bindE (onProgress env AnalyzingText 50) (\<lambda>_.
          bindE (analyzeTextWithClaude env
                   \<lparr>an_text = currentText0,
                    an_aiPercent = aiDetectionPercent baseline,
                    an_plagiarismPercent = plagiarismPercent baseline,
                    an_maxAiPercent = maxAiPercent,
                    an_maxPlagiarismPercent = maxPlagiarismPercent,
                    an_tone = tone input,
                    an_domainHint = domain_hint input\<rparr>) (\<lambda>analysis.
          bindE (onProgress env AnalysisComplete 100) (\<lambda>_.
            ret \<lparr>final_text = currentText0,
                 ai_detection_percent = aiDetectionPercent baseline,
                 plagiarism_percent = plagiarismPercent baseline,
                 iterations_used = 0,
                 thresholds_met = thresholdsMet baseline maxAiPercent maxPlagiarismPercent,
                 history = history0,
                 result_notes = analysis\<rparr>)))
        else
          bindE (onProgress env StartingLoop 15) (\<lambda>_.
          bindE (optimizeLoop env input sessionId 1
                   \<lparr>currentText = currentText0, lastScores = baseline, iterationsUsed = 0,
                    reachedThresholds = False, historyEntries = history0\<rparr>) (\<lambda>st.
          bindE (onProgress env GeneratingSummary 92) (\<lambda>_.
          bindE (summarizeOptimizationWithClaude env
                   \<lparr>sm_mode = mode input,
                    sm_iterationsUsed = iterationsUsed st,
                    sm_thresholdsMet = reachedThresholds st,
                    sm_history = historyEntries st,
                    finalText = currentText st,
                    sm_maxAiPercent = maxAiPercent,
                    sm_maxPlagiarismPercent = maxPlagiarismPercent\<rparr>) (\<lambda>notes'.
          bindE (onProgress env OptimizationComplete 100) (\<lambda>_.
            ret \<lparr>final_text = currentText st,
                 ai_detection_percent = aiDetectionPercent (lastScores st),
                 plagiarism_percent = plagiarismPercent (lastScores st),
                 iterations_used = iterationsUsed st,
                 thresholds_met = reachedThresholds st,
                 history = historyEntries st,
                 result_notes = notes'\<rparr>))))))))"

text \<open>
  The \<open>try\<close> block: its outcome together with the value of the variable \<open>sessionId\<close>
  when the block is left (\<open>null\<close> is \<open>None\<close>).
\<close>

definition tryBody ::
  "services \<Rightarrow> GrammarlyOptimizeInput \<Rightarrow> service_call list \<Rightarrow>
     ((exn + GrammarlyOptimizeResult) \<times> string option) \<times> service_call list" where
  "tryBody env input calls =
     (case createGrammarlySession env calls of
        (Inl e, calls1) \<Rightarrow> ((Inl e, None), calls1)
      | (Inr sessionId, calls1) \<Rightarrow>
          (case scoreAndOptimize env input sessionId calls1 of
             (outcome, calls2) \<Rightarrow> ((outcome, Some sessionId), calls2)))"

text \<open>
  The \<open>finally\<close> block: \<open>if (sessionId)\<close> holds for a non-empty string, and the \<open>catch\<close>
  around \<open>deleteSession\<close> only logs.
\<close>

definition finallyBody :: "services \<Rightarrow> string option \<Rightarrow> (service_call, unit) prog" where
  "finallyBody env sessionId =
     (case sessionId of
        None \<Rightarrow> ret ()
      | Some sid \<Rightarrow>
          if sid \<noteq> [] then tryCatch (deleteSession env sid) (\<lambda>_. ret ()) else ret ())"

text \<open>
  \<open>try { ... } finally { ... }\<close>: the \<open>finally\<close> block runs after the \<open>try\<close> block
  however that ended; an exception of the \<open>finally\<close> block would replace the outcome.
\<close>

definition runGrammarlyOptimization ::
  "services \<Rightarrow> GrammarlyOptimizeInput \<Rightarrow> (service_call, GrammarlyOptimizeResult) prog" where
  "runGrammarlyOptimization env input =
     bindE (onProgress env CreatingSession 5) (\<lambda>_.
     bindE (createBrowserUseClient env) (\<lambda>_.
       (\<lambda>calls. case tryBody env input calls of
                   ((outcome, sessionId), calls1) \<Rightarrow>
                     (case finallyBody env sessionId calls1 of
                        (Inl e, calls2) \<Rightarrow> (Inl e, calls2)
                      | (Inr _, calls2) \<Rightarrow> (outcome, calls2)))))"

section \<open>Invariants of programs\<close>

text \<open>
  \<open>appendsOnly P m\<close>: running \<open>m\<close> only appends calls to the log, and each of them
  satisfies \<open>P\<close>. \<open>returnsOnly Q m\<close>: every value \<open>m\<close> returns satisfies \<open>Q\<close>.
\<close>

definition appendsOnly :: "('c \<Rightarrow> bool) \<Rightarrow> ('c, 'a) prog \<Rightarrow> bool" where
  "appendsOnly P m \<longleftrightarrow> (\<forall>calls. \<exists>new. snd (m calls) = calls @ new \<and> (\<forall>c\<in>set new. P c))"

definition returnsOnly :: "('a \<Rightarrow> bool) \<Rightarrow> ('c, 'a) prog \<Rightarrow> bool" where
  "returnsOnly Q m \<longleftrightarrow> (\<forall>calls x. fst (m calls) = Inr x \<longrightarrow> Q x)"

text \<open>
  A progress callback that never throws, and the calls one progress report adds to the
  log (none when the caller passed no callback).
\<close>

definition progressNeverThrows :: "services \<Rightarrow> bool" where
  "progressNeverThrows env \<longleftrightarrow>
     (case onProgressR env of None \<Rightarrow> True | Some responses \<Rightarrow> \<forall>n. responses n = Inr ())"

definition progressCalls :: "services \<Rightarrow> progress_message \<Rightarrow> real \<Rightarrow> service_call list" where
  "progressCalls env message progress =
     (case onProgressR env of None \<Rightarrow> [] | Some _ \<Rightarrow> [Progress message progress])"

text \<open>
  The strings the login passes to the automation agent, and the calls a login may make:
  \<open>loginStepCall\<close> for steps 1 to 6 and the failure detection, \<open>loginCall\<close> for the whole
  login, which adds the authentication check.
\<close>

definition actInstructions :: "string list" where
  "actInstructions = [typeEmailInstruction, continueInstruction, submitInstruction]"

definition observeQueries :: "string list" where
  "observeQueries = [emailOptionQuery, emailFieldQuery, passwordFieldQuery, detectQuery]"

fun loginStepCall :: "GrammarlyCredentials \<Rightarrow> call \<Rightarrow> bool" where
  "loginStepCall credentials (Goto url waitUntil) = (url = signinUrl \<and> waitUntil = ''load'')"
| "loginStepCall credentials (Observe query) = (query \<in> set observeQueries)"
| "loginStepCall credentials (Act (Instruction s)) = (s \<in> set actInstructions)"
| "loginStepCall credentials (Act (Element e)) = True"
| "loginStepCall credentials (IsVisible sel) = (sel \<in> set emailInputs)"
| "loginStepCall credentials (Fill sel v) =
     ((sel = passwordSelector \<and> v = password credentials) \<or>
      (sel \<in> set emailInputs \<and> v = username credentials))"
| "loginStepCall credentials CheckAuth = False"
| "loginStepCall credentials (Extract _) = False"
| "loginStepCall credentials _ = True"

definition loginCall :: "GrammarlyCredentials \<Rightarrow> call \<Rightarrow> bool" where
  "loginCall credentials c \<longleftrightarrow> c = CheckAuth \<or> loginStepCall credentials c"

text \<open>
  \<open>retriesUntil env credentials maxRetries attempt calls attempt' calls'\<close>: the loop, at the
  head of attempt \<open>attempt\<close> with the log \<open>calls\<close>, arrives at the head of attempt \<open>attempt'\<close>
  with the log \<open>calls'\<close>, because every attempt in between ends without a \<open>return\<close>: its
  authentication check fails and the failure is not classified as invalid credentials,
  CAPTCHA or rate limit, or, for an attempt before the last, it throws.
\<close>

inductive retriesUntil ::
  "browser \<Rightarrow> GrammarlyCredentials \<Rightarrow> int \<Rightarrow> nat \<Rightarrow> call list \<Rightarrow> nat \<Rightarrow> call list \<Rightarrow> bool"
  for env credentials maxRetries where
    arrived:
      "retriesUntil env credentials maxRetries attempt calls attempt calls"
  | unclassified:
      "int attempt \<le> maxRetries \<Longrightarrow>
       loginSteps env credentials calls = (Inr Continue, calls1) \<Longrightarrow>
       checkGrammarlyAuthStatus env calls1 = (Inr authStatus, calls2) \<Longrightarrow>
       \<not> loggedIn authStatus \<Longrightarrow>
       detectLoginFailure env calls2 = (Inr failure, calls3) \<Longrightarrow>
       \<not> truthyBool (f_invalidCredentials failure) \<Longrightarrow>
       \<not> truthyBool (f_captchaDetected failure) \<Longrightarrow>
       \<not> truthyBool (f_rateLimited failure) \<Longrightarrow>
       calls4 = (if int attempt < maxRetries then calls3 @ [Sleep (backoffDelay attempt)]
                 else calls3) \<Longrightarrow>
       retriesUntil env credentials maxRetries (Suc attempt) calls4 attempt' calls' \<Longrightarrow>
         retriesUntil env credentials maxRetries attempt calls attempt' calls'"
  | thrown:
      "int attempt < maxRetries \<Longrightarrow>
       tryBlock env credentials maxRetries attempt calls = (Inl e, calls1) \<Longrightarrow>
       retriesUntil env credentials maxRetries (Suc attempt)
         (calls1 @ [Sleep (backoffDelay attempt)]) attempt' calls' \<Longrightarrow>
         retriesUntil env credentials maxRetries attempt calls attempt' calls'"

section \<open>Example collaborators\<close>

text \<open>
  Collaborators in the style of the mocks of the unit tests: a scoring task that answers
  with the given scores in turn, and Claude calls that always succeed.
\<close>

definition mockServices :: "GrammarlyScores list \<Rightarrow> services" where
  "mockServices scores =
     \<lparr>onProgressR = None,
      createClientR = (\<lambda>_. Inr ()),
      createSessionR = (\<lambda>_. Inr ''bu-session-12345''),
      scoreTaskR = (\<lambda>n. if n < length scores then Inr (scores ! n)
                         else Inl (Error ''Scoring failed'')),
      analyzeR = (\<lambda>_. Inr ''analysis''),
      rewriteR = (\<lambda>_. Inr \<lparr>rewrittenText = ''rewritten text'', reasoning = ''reasoning''\<rparr>),
      summarizeR = (\<lambda>_. Inr ''summary''),
      deleteSessionR = (\<lambda>_. Inr ())\<rparr>"

definition scoresOf :: "real \<Rightarrow> real \<Rightarrow> GrammarlyScores" where
  "scoresOf ai plagiarism =
     \<lparr>aiDetectionPercent = Some (Num ai), plagiarismPercent = Some (Num plagiarism),
      overallScore = None, score_notes = []\<rparr>"

definition exampleInput :: "GrammarlyOptimizeMode \<Rightarrow> int \<Rightarrow> GrammarlyOptimizeInput" where
  "exampleInput m n =
     \<lparr>input_text = ''Original text'', mode = m, max_ai_percent = Num 10,
      max_plagiarism_percent = Num 5, max_iterations = n, tone = Neutral,
      domain_hint = None, custom_instructions = None\<rparr>"

definition described :: "string \<Rightarrow> ObservedElement" where
  "described d = \<lparr>description = Some d, selector = None, suggestedMethod = None, arguments = None\<rparr>"

text \<open>
  A browser whose page is at \<open>url\<close>, whose \<open>observe\<close> answers with the given lists in turn
  (and with nothing afterwards), whose authentication checks answer with the given
  verdicts in turn (and with "not logged in" afterwards), and whose other operations
  succeed.
\<close>

definition mockBrowser :: "string \<Rightarrow> ObservedElement list list \<Rightarrow> bool list \<Rightarrow> browser" where
  "mockBrowser url observations logins =
     \<lparr>pagesR = (\<lambda>_. Inr True), urlR = (\<lambda>_. Inr url), gotoR = (\<lambda>_. Inr ()),
      observeR = (\<lambda>n. Inr (if n < length observations then observations ! n else [])),
      actR = (\<lambda>_. Inr ()), isVisibleR = (\<lambda>_. Inr True), fillR = (\<lambda>_. Inr ()),
      checkAuthR = (\<lambda>n. Inr \<lparr>loggedIn = (n < length logins \<and> logins ! n),
                               currentUrl = url\<rparr>),
      extractR = (\<lambda>_. Inl (Error ''Extraction failed''))\<rparr>"

definition testCredentials :: GrammarlyCredentials where
  "testCredentials = \<lparr>username = ''test@example.com'', password = ''testPassword123''\<rparr>"

text \<open>An extraction whose first attempt fails and whose second attempt answers \<open>second\<close>.\<close>

definition failingExtraction :: "exn + GrammarlyScores \<Rightarrow> browser" where
  "failingExtraction second =
     (mockBrowser ''https://app.grammarly.com'' [] [])
       \<lparr>extractR := (\<lambda>n. if n = 0 then Inl (Error ''Primary extraction failed'') else second)\<rparr>"

text \<open>
  Browsers for four login scenarios: a login that succeeds at once, one that the page
  rejects with "Incorrect password", one whose two attempts fail without any error
  indicator, and one whose navigation always throws. The two call lists are the log after
  the first and after the second attempt of the third scenario.
\<close>

definition successfulLoginBrowser :: browser where
  "successfulLoginBrowser =
     mockBrowser ''https://www.grammarly.com/signin''
       [[], [described ''Email input''], [described ''Password input'']] [True]"

definition credentialErrorBrowser :: browser where
  "credentialErrorBrowser =
     mockBrowser ''https://other-site.com''
       [[], [described ''Email input''], [described ''Password input''],
        [described ''Incorrect password'']] []"

definition unclassifiedFailureBrowser :: browser where
  "unclassifiedFailureBrowser =
     mockBrowser ''https://www.grammarly.com/signin''
       [[], [described ''Email input''], [described ''Password input''], [],
        [], [described ''Email input''], [described ''Password input''], []] []"

definition unreachableBrowser :: browser where
  "unreachableBrowser =
     (mockBrowser ''https://other-site.com'' [] [])
       \<lparr>gotoR := (\<lambda>_. Inl (Error ''net::ERR_CONNECTION_RESET''))\<rparr>"

definition firstAttemptCalls :: "call list" where
  "firstAttemptCalls = [Pages, Url, Observe emailOptionQuery,
      Observe emailFieldQuery, IsVisible ''input[type=\"email\"]'',
      Fill ''input[type=\"email\"]'' (username testCredentials), Sleep 500,
      Act (Instruction continueInstruction), Sleep 2000, Observe passwordFieldQuery,
      Fill passwordSelector (password testCredentials), Sleep 500,
      Act (Instruction submitInstruction), Sleep 3000, CheckAuth, Pages, Observe detectQuery, Sleep 2000]"

definition secondAttemptCalls :: "call list" where
  "secondAttemptCalls = firstAttemptCalls @ [Url, Observe emailOptionQuery,
      Observe emailFieldQuery, IsVisible ''input[type=\"email\"]'',
      Fill ''input[type=\"email\"]'' (username testCredentials), Sleep 500,
      Act (Instruction continueInstruction), Sleep 2000, Observe passwordFieldQuery,
      Fill passwordSelector (password testCredentials), Sleep 500,
      Act (Instruction submitInstruction), Sleep 3000, CheckAuth, Pages, Observe detectQuery]"

section \<open>Properties of programs\<close>

lemma call_apply: "call kind c responses calls = (responses (length (filter kind calls)), calls @ [c])"
  by (simp add: call_def)

lemma appendsOnlyD:
  "appendsOnly P m \<Longrightarrow> \<exists>new. snd (m calls) = calls @ new \<and> (\<forall>c\<in>set new. P c)"
  by (simp add: appendsOnly_def)

lemma appendsOnly_ret [intro!, simp]: "appendsOnly P (ret x)"
  by (simp add: appendsOnly_def ret_def)

lemma appendsOnly_call [intro!]: "P c \<Longrightarrow> appendsOnly P (call kind c responses)"
  by (simp add: appendsOnly_def call_apply)

lemma appendsOnly_bindE [intro!]:
  assumes "appendsOnly P m" and "\<And>x. appendsOnly P (f x)"
  shows "appendsOnly P (bindE m f)"
  unfolding appendsOnly_def
proof
  fix calls
  obtain new1 where n1: "snd (m calls) = calls @ new1" "\<forall>c\<in>set new1. P c"
    using appendsOnlyD [OF assms(1)] by blast
  show "\<exists>new. snd (bindE m f calls) = calls @ new \<and> (\<forall>c\<in>set new. P c)"
  proof (cases "fst (m calls)")
    case (Inl e)
    then have "bindE m f calls = (Inl e, calls @ new1)"
      using n1(1) by (cases "m calls") (simp add: bindE_def)
    then show ?thesis using n1(2) by auto
  next
    case (Inr x)
    then have eq: "bindE m f calls = f x (calls @ new1)"
      using n1(1) by (cases "m calls") (simp add: bindE_def)
    obtain new2 where n2: "snd (f x (calls @ new1)) = (calls @ new1) @ new2" "\<forall>c\<in>set new2. P c"
      using appendsOnlyD [OF assms(2)] by blast
    have "snd (bindE m f calls) = calls @ (new1 @ new2)"
      using eq n2(1) by simp
    moreover have "\<forall>c\<in>set (new1 @ new2). P c"
      using n1(2) n2(2) by auto
    ultimately show ?thesis by blast
  qed
qed

lemma appendsOnly_tryCatch [intro!]:
  assumes "appendsOnly P m" and "\<And>e. appendsOnly P (h e)"
  shows "appendsOnly P (tryCatch m h)"
  unfolding appendsOnly_def
proof
  fix calls
  obtain new1 where n1: "snd (m calls) = calls @ new1" "\<forall>c\<in>set new1. P c"
    using appendsOnlyD [OF assms(1)] by blast
  show "\<exists>new. snd (tryCatch m h calls) = calls @ new \<and> (\<forall>c\<in>set new. P c)"
  proof (cases "fst (m calls)")
    case (Inr x)
    then have "tryCatch m h calls = (Inr x, calls @ new1)"
      using n1(1) by (cases "m calls") (simp add: tryCatch_def)
    then show ?thesis using n1(2) by auto
  next
    case (Inl e)
    then have eq: "tryCatch m h calls = h e (calls @ new1)"
      using n1(1) by (cases "m calls") (simp add: tryCatch_def)
    obtain new2 where n2: "snd (h e (calls @ new1)) = (calls @ new1) @ new2" "\<forall>c\<in>set new2. P c"
      using appendsOnlyD [OF assms(2)] by blast
    have "snd (tryCatch m h calls) = calls @ (new1 @ new2)"
      using eq n2(1) by simp
    moreover have "\<forall>c\<in>set (new1 @ new2). P c"
      using n1(2) n2(2) by auto
    ultimately show ?thesis by blast
  qed
qed

lemma appendsOnly_if [intro!]:
  "(b \<Longrightarrow> appendsOnly P m) \<Longrightarrow> (\<not> b \<Longrightarrow> appendsOnly P n) \<Longrightarrow> appendsOnly P (if b then m else n)"
  by simp

lemma appendsOnly_filter:
  assumes "appendsOnly (\<lambda>c. \<not> P c) m"
  shows "filter P (snd (m calls)) = filter P calls"
  using appendsOnlyD [OF assms, of calls] by (auto simp: filter_empty_conv)

lemma returnsOnly_ret [intro!]: "Q x \<Longrightarrow> returnsOnly Q (ret x)"
  by (simp add: returnsOnly_def ret_def)

lemma returnsOnly_bindE [intro!]:
  "(\<And>x. returnsOnly Q (f x)) \<Longrightarrow> returnsOnly Q (bindE m f)"
  by (auto simp: returnsOnly_def bindE_def split: prod.splits sum.splits)


lemma appendsOnly_mono:
  "appendsOnly P m \<Longrightarrow> (\<And>c. P c \<Longrightarrow> Q c) \<Longrightarrow> appendsOnly Q m"
  unfolding appendsOnly_def by blast

section \<open>Properties of the threshold check\<close>

lemma thresholdsMet_iff:
  "thresholdsMet scores maxAi maxPl \<longleftrightarrow>
     (aiDetectionPercent scores \<noteq> None \<or> plagiarismPercent scores \<noteq> None) \<and>
     (\<forall>v. aiDetectionPercent scores = Some v \<longrightarrow> num_le v maxAi) \<and>
     (\<forall>v. plagiarismPercent scores = Some v \<longrightarrow> num_le v maxPl)"
  by (auto simp: thresholdsMet_def Let_def split: option.splits)

text \<open>
  Claim C1. For every scores value and every pair of maxima, \<open>thresholdsMet\<close> is true only
  if at least one of the two percent fields is non-null and every non-null one is at most
  its maximum; when both are null it is false.
\<close>

theorem thresholdsMet_only_if:
  "(thresholdsMet scores maxAi maxPl \<longrightarrow>
      (aiDetectionPercent scores \<noteq> None \<or> plagiarismPercent scores \<noteq> None) \<and>
      (\<forall>v. aiDetectionPercent scores = Some v \<longrightarrow> num_le v maxAi) \<and>
      (\<forall>v. plagiarismPercent scores = Some v \<longrightarrow> num_le v maxPl)) \<and>
   (aiDetectionPercent scores = None \<and> plagiarismPercent scores = None \<longrightarrow>
      \<not> thresholdsMet scores maxAi maxPl)"
  using thresholdsMet_iff [of scores maxAi maxPl] by blast

theorem thresholdsMet_only_if_witness:
  "thresholdsMet \<lparr>aiDetectionPercent = Some (Num 8), plagiarismPercent = None,
                  overallScore = None, score_notes = ''''\<rparr> (Num 10) (Num 5) \<and>
   num_le (Num 8) (Num 10) \<and>
   \<not> thresholdsMet \<lparr>aiDetectionPercent = None, plagiarismPercent = None,
                    overallScore = None, score_notes = ''''\<rparr> (Num 10) (Num 5)"
  using thresholdsMet_only_if
    [of "\<lparr>aiDetectionPercent = Some (Num 8), plagiarismPercent = None,
          overallScore = None, score_notes = ''''\<rparr>" "Num 10" "Num 5"]
    thresholdsMet_only_if
    [of "\<lparr>aiDetectionPercent = None, plagiarismPercent = None,
          overallScore = None, score_notes = ''''\<rparr>" "Num 10" "Num 5"]
  by (simp add: thresholdsMet_def)

section \<open>Properties of the model tier selection\<close>

text \<open>
  Claim C7. For all non-negative integers \<open>textLength\<close> and \<open>iterations\<close>, the standard
  tier is selected if and only if \<open>textLength \<le> 12000\<close> and \<open>iterations \<le> 8\<close>; the
  pair (12000, 8) selects the standard tier, and 12001 characters or 9 iterations select
  the higher tier.
\<close>

theorem chooseClaudeModel_standard_iff:
  "(chooseClaudeModel textLength iterations = Sonnet \<longleftrightarrow>
      textLength \<le> 12000 \<and> iterations \<le> 8) \<and>
   chooseClaudeModel 12000 8 = Sonnet \<and>
   chooseClaudeModel 12001 iterations = Opus \<and>
   chooseClaudeModel textLength 9 = Opus"
  by (auto simp: chooseClaudeModel_def)

section \<open>Properties of the automatic login\<close>

lemma appendsOnly_sleep [intro!]: "P (Sleep ms) \<Longrightarrow> appendsOnly P (sleep ms)"
  by (simp add: appendsOnly_def sleep_def)

lemma fillEmailInput_appends:
  assumes "\<And>sel. sel \<in> set sels \<Longrightarrow> P (IsVisible sel) \<and> P (Fill sel user)"
  shows "\<exists>new. snd (fillEmailInput env user sels calls) = calls @ new \<and> (\<forall>c\<in>set new. P c)"
  using assms
proof (induction sels arbitrary: calls)
  case Nil
  then show ?case by simp
next
  case (Cons sel rest)
  have ok: "P (IsVisible sel)" "P (Fill sel user)"
    using Cons.prems by auto
  have rest: "\<exists>new. snd (fillEmailInput env user rest cs) = cs @ new \<and> (\<forall>c\<in>set new. P c)" for cs
    using Cons.IH Cons.prems by auto
  let ?c1 = "calls @ [IsVisible sel]"
  let ?c2 = "?c1 @ [Fill sel user]"
  obtain n1 where n1: "snd (fillEmailInput env user rest ?c1) = ?c1 @ n1" "\<forall>c\<in>set n1. P c"
    using rest by blast
  obtain n2 where n2: "snd (fillEmailInput env user rest ?c2) = ?c2 @ n2" "\<forall>c\<in>set n2. P c"
    using rest by blast
  have "snd (fillEmailInput env user (sel # rest) calls) = calls @ (IsVisible sel # n1) \<or>
        snd (fillEmailInput env user (sel # rest) calls) = calls @ (IsVisible sel # Fill sel user # n2) \<or>
        snd (fillEmailInput env user (sel # rest) calls) = calls @ [IsVisible sel, Fill sel user]"
    using n1(1) n2(1)
    by (simp add: isVisible_def fill_def call_apply split: sum.splits)
  then show ?case
    using ok n1(2) n2(2)
    by (elim disjE) (rule exI, erule conjI, simp)+
qed

lemma appendsOnly_fillEmailInput:
  assumes "\<And>sel. sel \<in> set sels \<Longrightarrow> P (IsVisible sel) \<and> P (Fill sel user)"
  shows "appendsOnly P (fillEmailInput env user sels)"
  unfolding appendsOnly_def using fillEmailInput_appends [OF assms] by blast

lemma appendsOnly_detectLoginFailure:
  "appendsOnly (loginStepCall credentials) (detectLoginFailure env)"
  unfolding detectLoginFailure_def pages_def observe_def
  by (auto simp: observeQueries_def)

lemma appendsOnly_navigateToLogin:
  "appendsOnly (loginStepCall credentials) (navigateToLogin env)"
  unfolding navigateToLogin_def pageUrl_def goto_def
  by auto

lemma appendsOnly_chooseEmailLogin:
  "appendsOnly (loginStepCall credentials) (chooseEmailLogin env)"
  unfolding chooseEmailLogin_def observe_def act_def
  by (auto simp: observeQueries_def split: list.splits)

lemma appendsOnly_enterEmail:
  "appendsOnly (loginStepCall credentials) (enterEmail env credentials)"
  unfolding enterEmail_def observe_def act_def
  by (auto simp: observeQueries_def actInstructions_def intro!: appendsOnly_fillEmailInput)

lemma appendsOnly_enterPassword:
  "appendsOnly (loginStepCall credentials) (enterPassword env credentials)"
  unfolding enterPassword_def observe_def act_def fill_def
  by (auto simp: observeQueries_def actInstructions_def intro!: appendsOnly_detectLoginFailure)

lemma appendsOnly_loginSteps:
  "appendsOnly (loginStepCall credentials) (loginSteps env credentials)"
  unfolding loginSteps_def
  by (intro appendsOnly_bindE appendsOnly_navigateToLogin appendsOnly_chooseEmailLogin
        appendsOnly_enterEmail appendsOnly_enterPassword)

lemma appendsOnly_detectLoginFailure':
  "appendsOnly (loginCall credentials) (detectLoginFailure env)"
  by (rule appendsOnly_mono [OF appendsOnly_detectLoginFailure [of credentials]])
     (simp add: loginCall_def)

lemma appendsOnly_loginSteps':
  "appendsOnly (loginCall credentials) (loginSteps env credentials)"
  by (rule appendsOnly_mono [OF appendsOnly_loginSteps]) (simp add: loginCall_def)

lemma appendsOnly_verifyLogin:
  "appendsOnly (loginCall credentials) (verifyLogin env maxRetries attempt)"
  unfolding verifyLogin_def checkGrammarlyAuthStatus_def
  by (intro appendsOnly_bindE appendsOnly_call appendsOnly_if appendsOnly_ret
        appendsOnly_sleep appendsOnly_detectLoginFailure')
     (simp_all add: loginCall_def)

lemma appendsOnly_attemptOnce:
  "appendsOnly (loginCall credentials) (attemptOnce env credentials maxRetries attempt)"
proof -
  have "appendsOnly (loginCall credentials) (tryBlock env credentials maxRetries attempt)"
    unfolding tryBlock_def
    by (intro appendsOnly_bindE appendsOnly_loginSteps')
       (auto split: flow.splits intro: appendsOnly_verifyLogin)
  moreover have "appendsOnly (loginCall credentials) (catchBlock maxRetries attempt e)" for e
    unfolding catchBlock_def
    by (intro appendsOnly_bindE appendsOnly_if appendsOnly_ret appendsOnly_sleep)
       (simp add: loginCall_def)
  ultimately show ?thesis
    unfolding attemptOnce_def by (intro appendsOnly_tryCatch)
qed

lemma loginLoop_appends:
  "\<exists>new. snd (loginLoop env credentials maxRetries attempt calls) = calls @ new \<and>
         (\<forall>c\<in>set new. loginCall credentials c)"
proof (induction env credentials maxRetries attempt calls rule: loginLoop.induct)
  case (1 env credentials maxRetries attempt calls)
  show ?case
  proof (cases "int attempt \<le> maxRetries")
    case False
    then show ?thesis by (subst loginLoop.simps) simp
  next
    case True
    obtain r calls' where a: "attemptOnce env credentials maxRetries attempt calls = (r, calls')"
      by (cases "attemptOnce env credentials maxRetries attempt calls") auto
    obtain n1 where n1: "calls' = calls @ n1" "\<forall>c\<in>set n1. loginCall credentials c"
      using appendsOnlyD
          [OF appendsOnly_attemptOnce [of credentials env maxRetries attempt], of calls] a
      by auto
    show ?thesis
    proof (cases r)
      case (Inl e)
      then show ?thesis using True a n1 by (subst loginLoop.simps) simp
    next
      case (Inr fl)
      show ?thesis
      proof (cases fl)
        case (Return result)
        then show ?thesis using True a n1 Inr by (subst loginLoop.simps) simp
      next
        case Continue
        obtain n2 where n2:
          "snd (loginLoop env credentials maxRetries (attempt + 1) calls') = calls' @ n2"
          "\<forall>c\<in>set n2. loginCall credentials c"
          using "1.IH" [OF True a [symmetric] Inr Continue] by blast
        have "snd (loginLoop env credentials maxRetries attempt calls) = calls @ (n1 @ n2)"
          using True a Inr Continue n1(1) n2(1) by (subst loginLoop.simps) simp
        moreover have "\<forall>c\<in>set (n1 @ n2). loginCall credentials c"
          using n1(2) n2(2) by auto
        ultimately show ?thesis by blast
      qed
    qed
  qed
qed

lemma appendsOnly_attemptGrammarlyLogin:
  "appendsOnly (loginCall credentials) (attemptGrammarlyLogin env credentials options)"
proof -
  have "appendsOnly (loginCall credentials) (loginLoop env credentials maxRetries attempt)"
    for maxRetries attempt
    unfolding appendsOnly_def using loginLoop_appends by blast
  then show ?thesis
    unfolding attemptGrammarlyLogin_def Let_def pages_def
    by (auto simp: loginCall_def)
qed

lemma loginCall_cases:
  assumes "loginCall credentials c"
  shows "(\<forall>s. c = Act (Instruction s) \<longrightarrow> s \<in> set actInstructions) \<and>
         (\<forall>sel v. c = Fill sel v \<longrightarrow>
            (sel = passwordSelector \<and> v = password credentials) \<or>
            (sel \<in> set emailInputs \<and> v = username credentials)) \<and>
         (\<forall>query. c = Observe query \<longrightarrow> query \<in> set observeQueries) \<and>
         (\<forall>url waitUntil. c = Goto url waitUntil \<longrightarrow> url = signinUrl)"
  using assms by (cases c) (auto simp: loginCall_def)

lemma login_calls:
  "c \<in> set (snd (attemptGrammarlyLogin env credentials options [])) \<Longrightarrow> loginCall credentials c"
  using appendsOnlyD [OF appendsOnly_attemptGrammarlyLogin [of credentials env options], of "[]"]
  by auto

lemma successful_login_calls:
  "snd (attemptGrammarlyLogin successfulLoginBrowser
          \<lparr>username = ''test@example.com'', password = pw\<rparr> None []) =
     [Pages, Url, Observe emailOptionQuery, Observe emailFieldQuery,
      IsVisible ''input[type=\"email\"]'', Fill ''input[type=\"email\"]'' ''test@example.com'',
      Sleep 500, Act (Instruction continueInstruction), Sleep 2000,
      Observe passwordFieldQuery, Fill passwordSelector pw, Sleep 500,
      Act (Instruction submitInstruction), Sleep 3000, CheckAuth]"
  by (simp add: attemptGrammarlyLogin_def DEFAULT_MAX_RETRIES_def Let_def bindE_def
        pages_def call_apply successfulLoginBrowser_def mockBrowser_def resolveMaxRetries_def
        loginLoop.simps [of _ _ _ 0] attemptOnce_def tryCatch_def tryBlock_def loginSteps_def
        navigateToLogin_def pageUrl_def str_includes_def sublist_code prefix_code
        ret_def chooseEmailLogin_def observe_def enterEmail_def emailInputs_def
        isVisible_def fill_def sleep_def act_def enterPassword_def verifyLogin_def
        checkGrammarlyAuthStatus_def)

text \<open>
  Claim C3 does not hold as stated, for every credentials value: the instructions are
  fixed texts, and a password that occurs in one of them is a substring of it. With the
  password \<open>email\<close> the login fills the password field through the locator and then
  passes the agent an instruction that contains the word.
\<close>

theorem password_substring_counterexample:
  "Fill passwordSelector ''email'' \<in>
     set (snd (attemptGrammarlyLogin successfulLoginBrowser
            \<lparr>username = ''test@example.com'', password = ''email''\<rparr> None [])) \<and>
   Act (Instruction continueInstruction) \<in>
     set (snd (attemptGrammarlyLogin successfulLoginBrowser
            \<lparr>username = ''test@example.com'', password = ''email''\<rparr> None [])) \<and>
   str_includes continueInstruction ''email''"
proof -
  have "str_includes continueInstruction ''email''" by code_simp
  then show ?thesis by (simp add: successful_login_calls)
qed

text \<open>
  Claim C3, as amended. In every login attempt the password is passed to the browser only
  as the value of the locator fill of \<open>input[type="password"]\<close> (the only other fill is
  that of an email input with the user name), and every instruction passed to the
  agent's \<open>act\<close> is one of three fixed texts that do not depend on the credentials; so a
  password that is not a substring of one of these three texts is a substring of no
  instruction passed to \<open>act\<close>.
\<close>

theorem login_instructions_are_fixed:
  "(\<forall>c \<in> set (snd (attemptGrammarlyLogin env credentials options [])).
      (\<forall>s. c = Act (Instruction s) \<longrightarrow> s \<in> set actInstructions) \<and>
      (\<forall>sel v. c = Fill sel v \<longrightarrow>
         (sel = passwordSelector \<and> v = password credentials) \<or>
         (sel \<in> set emailInputs \<and> v = username credentials)) \<and>
      (\<forall>query. c = Observe query \<longrightarrow> query \<in> set observeQueries) \<and>
      (\<forall>url waitUntil. c = Goto url waitUntil \<longrightarrow> url = signinUrl)) \<and>
   ((\<forall>s \<in> set actInstructions. \<not> str_includes s (password credentials)) \<longrightarrow>
    (\<forall>s. Act (Instruction s) \<in> set (snd (attemptGrammarlyLogin env credentials options [])) \<longrightarrow>
         \<not> str_includes s (password credentials)))"
proof -
  have calls: "\<forall>c \<in> set (snd (attemptGrammarlyLogin env credentials options [])).
      (\<forall>s. c = Act (Instruction s) \<longrightarrow> s \<in> set actInstructions) \<and>
      (\<forall>sel v. c = Fill sel v \<longrightarrow>
         (sel = passwordSelector \<and> v = password credentials) \<or>
         (sel \<in> set emailInputs \<and> v = username credentials)) \<and>
      (\<forall>query. c = Observe query \<longrightarrow> query \<in> set observeQueries) \<and>
      (\<forall>url waitUntil. c = Goto url waitUntil \<longrightarrow> url = signinUrl)"
    using login_calls loginCall_cases by blast
  have "\<not> str_includes s (password credentials)"
    if free: "\<forall>s \<in> set actInstructions. \<not> str_includes s (password credentials)"
      and s: "Act (Instruction s) \<in> set (snd (attemptGrammarlyLogin env credentials options []))"
    for s
  proof -
    have "loginCall credentials (Act (Instruction s))" using s by (rule login_calls)
    then have "s \<in> set actInstructions" by (simp add: loginCall_def)
    then show ?thesis using free by blast
  qed
  then show ?thesis using calls by blast
qed

theorem login_instructions_are_fixed_witness:
  "Fill passwordSelector ''testPassword123'' \<in>
     set (snd (attemptGrammarlyLogin successfulLoginBrowser testCredentials None [])) \<and>
   Act (Instruction submitInstruction) \<in>
     set (snd (attemptGrammarlyLogin successfulLoginBrowser testCredentials None [])) \<and>
   submitInstruction \<in> set actInstructions \<and>
   \<not> str_includes submitInstruction ''testPassword123''"
proof -
  have calls: "Fill passwordSelector ''testPassword123'' \<in>
       set (snd (attemptGrammarlyLogin successfulLoginBrowser testCredentials None []))"
     "Act (Instruction submitInstruction) \<in>
       set (snd (attemptGrammarlyLogin successfulLoginBrowser testCredentials None []))"
    by (simp_all add: testCredentials_def successful_login_calls)
  have free: "\<forall>s \<in> set actInstructions. \<not> str_includes s (password testCredentials)"
    by code_simp
  have pw: "password testCredentials = ''testPassword123''"
    by (simp add: testCredentials_def)
  show ?thesis
    using login_instructions_are_fixed [of successfulLoginBrowser testCredentials None]
      calls free pw
    by auto
qed

lemma loginLoop_Return:
  "int attempt \<le> maxRetries \<Longrightarrow>
   attemptOnce env credentials maxRetries attempt calls = (Inr (Return result), calls') \<Longrightarrow>
     loginLoop env credentials maxRetries attempt calls = (Inr result, calls')"
  by (subst loginLoop.simps) simp

lemma loginLoop_Continue:
  "int attempt \<le> maxRetries \<Longrightarrow>
   attemptOnce env credentials maxRetries attempt calls = (Inr Continue, calls') \<Longrightarrow>
     loginLoop env credentials maxRetries attempt calls =
       loginLoop env credentials maxRetries (Suc attempt) calls'"
  by (subst loginLoop.simps) simp

lemma loginLoop_finished:
  "\<not> int attempt \<le> maxRetries \<Longrightarrow>
     loginLoop env credentials maxRetries attempt calls =
       (Inr (failedWith ''Login failed after all retry attempts''), calls)"
  by (subst loginLoop.simps) simp

lemma tryBlock_classified:
  assumes "loginSteps env credentials calls = (Inr Continue, calls1)"
      and "checkGrammarlyAuthStatus env calls1 = (Inr authStatus, calls2)"
      and "\<not> loggedIn authStatus"
      and "detectLoginFailure env calls2 = (Inr failure, calls3)"
  shows "tryBlock env credentials maxRetries attempt calls =
           (if truthyBool (f_invalidCredentials failure) \<or>
               truthyBool (f_captchaDetected failure) \<or>
               truthyBool (f_rateLimited failure)
            then (Inr (Return (spreadFailure failure)), calls3)
            else (Inr Continue,
                  if int attempt < maxRetries then calls3 @ [Sleep (backoffDelay attempt)]
                  else calls3))"
  using assms
  by (simp add: tryBlock_def verifyLogin_def bindE_def ret_def sleep_def)

lemma attemptOnce_tryBlock_Inr:
  "tryBlock env credentials maxRetries attempt calls = (Inr r, calls') \<Longrightarrow>
     attemptOnce env credentials maxRetries attempt calls = (Inr r, calls')"
  by (simp add: attemptOnce_def tryCatch_def)

lemma attemptOnce_tryBlock_Inl:
  "tryBlock env credentials maxRetries attempt calls = (Inl e, calls') \<Longrightarrow>
     attemptOnce env credentials maxRetries attempt calls =
       (if int attempt \<ge> maxRetries
        then (Inr (Return (failedWith (case e of Error message \<Rightarrow> message
                                               | NonError \<Rightarrow> ''Unknown error''))), calls')
        else (Inr Continue, calls' @ [Sleep (backoffDelay attempt)]))"
  by (simp add: attemptOnce_def tryCatch_def catchBlock_def bindE_def ret_def sleep_def)

lemma loginStepCall_not_CheckAuth: "loginStepCall credentials c \<Longrightarrow> \<not> isCheckAuth c"
  by (cases c) auto

lemma loginSteps_no_CheckAuth:
  assumes "loginSteps env credentials calls = (r, calls')"
  shows "length (filter isCheckAuth calls') = length (filter isCheckAuth calls)"
proof -
  have "appendsOnly (\<lambda>c. \<not> isCheckAuth c) (loginSteps env credentials)"
    by (rule appendsOnly_mono [OF appendsOnly_loginSteps [of credentials]])
       (rule loginStepCall_not_CheckAuth)
  then show ?thesis
    using appendsOnly_filter [of isCheckAuth "loginSteps env credentials" calls] assms by simp
qed

lemma detectLoginFailure_no_CheckAuth:
  assumes "detectLoginFailure env calls = (r, calls')"
  shows "length (filter isCheckAuth calls') = length (filter isCheckAuth calls)"
proof -
  have "appendsOnly (\<lambda>c. \<not> isCheckAuth c) (detectLoginFailure env)"
    by (rule appendsOnly_mono [OF appendsOnly_detectLoginFailure])
       (rule loginStepCall_not_CheckAuth)
  then show ?thesis
    using appendsOnly_filter [of isCheckAuth "detectLoginFailure env" calls] assms by simp
qed

lemmas login_defs =
  attemptGrammarlyLogin_def DEFAULT_MAX_RETRIES_def resolveMaxRetries_def Let_def bindE_def
  pages_def call_apply mockBrowser_def attemptOnce_def tryCatch_def tryBlock_def
  catchBlock_def loginSteps_def
  navigateToLogin_def pageUrl_def goto_def ret_def chooseEmailLogin_def observe_def enterEmail_def
  emailInputs_def isVisible_def fill_def sleep_def act_def enterPassword_def verifyLogin_def
  checkGrammarlyAuthStatus_def detectLoginFailure_def backoffDelay_def failedWith_def

lemma other_site:
  "\<not> str_includes ''https://other-site.com'' ''grammarly.com/signin''"
  "\<not> str_includes ''https://other-site.com'' ''grammarly.com/login''"
  by code_simp+

lemma signin_site:
  "str_includes ''https://www.grammarly.com/signin'' ''grammarly.com/signin''"
  by code_simp

lemma classify_incorrect_password:
  "classifyIndicators [described ''Incorrect password''] =
     \<lparr>f_error = Some ''Invalid credentials'', f_invalidCredentials = Some True,
      f_captchaDetected = None, f_rateLimited = None\<rparr>"
  by code_simp

lemma classify_nothing: "classifyIndicators [] = noFailure"
  by (simp add: classifyIndicators_def)

lemma attemptGrammarlyLogin_loop:
  "pagesR env (length (filter isPages calls)) = Inr True \<Longrightarrow>
     attemptGrammarlyLogin env credentials options calls =
       loginLoop env credentials (resolveMaxRetries options) 0 (calls @ [Pages])"
  by (simp add: attemptGrammarlyLogin_def Let_def bindE_def pages_def call_apply)

lemma retriesUntil_loginLoop:
  assumes "retriesUntil env credentials maxRetries attempt calls attempt' calls'"
  shows "loginLoop env credentials maxRetries attempt calls =
           loginLoop env credentials maxRetries attempt' calls'"
  using assms
proof (induction rule: retriesUntil.induct)
  case (arrived attempt calls)
  show ?case by simp
next
  case (unclassified attempt calls calls1 authStatus calls2 failure calls3 calls4 attempt' calls')
  have "tryBlock env credentials maxRetries attempt calls = (Inr Continue, calls4)"
    using tryBlock_classified [OF unclassified(2-5)] unclassified(6-9) by simp
  then have "attemptOnce env credentials maxRetries attempt calls = (Inr Continue, calls4)"
    by (rule attemptOnce_tryBlock_Inr)
  then show ?case
    using unclassified(1) unclassified.IH by (simp add: loginLoop_Continue)
next
  case (thrown attempt calls e calls1 attempt' calls')
  have "attemptOnce env credentials maxRetries attempt calls =
          (Inr Continue, calls1 @ [Sleep (backoffDelay attempt)])"
    using attemptOnce_tryBlock_Inl [OF thrown(2)] thrown(1) by simp
  then show ?case
    using thrown(1) thrown.IH by (simp add: loginLoop_Continue)
qed

lemma attemptOnce_Continue_retries:
  assumes "int attempt \<le> maxRetries"
      and "attemptOnce env credentials maxRetries attempt calls = (Inr Continue, calls1)"
      and "retriesUntil env credentials maxRetries (Suc attempt) calls1 attempt' calls'"
  shows "retriesUntil env credentials maxRetries attempt calls attempt' calls'"
proof (cases "tryBlock env credentials maxRetries attempt calls")
  case (Pair r c)
  show ?thesis
  proof (cases r)
    case (Inl e)
    then have "int attempt < maxRetries \<and> calls1 = c @ [Sleep (backoffDelay attempt)]"
      using attemptOnce_tryBlock_Inl [of env credentials maxRetries attempt calls e c] Pair assms(2)
      by (auto split: if_splits)
    then show ?thesis
      using retriesUntil.thrown [of attempt maxRetries env credentials calls e c attempt' calls']
        Pair Inl assms(3) by simp
  next
    case (Inr fl)
    then have fl: "fl = Continue" "c = calls1"
      using attemptOnce_tryBlock_Inr [of env credentials maxRetries attempt calls fl c] Pair assms(2)
      by auto
    obtain r0 c0 where ls: "loginSteps env credentials calls = (r0, c0)"
      by (cases "loginSteps env credentials calls") auto
    have r0: "r0 = Inr Continue"
      using Pair Inr fl ls
      by (auto simp: tryBlock_def bindE_def ret_def split: sum.splits flow.splits)
    then have v: "verifyLogin env maxRetries attempt c0 = (Inr Continue, calls1)"
      using Pair Inr fl ls by (simp add: tryBlock_def bindE_def)
    obtain st where st: "checkAuthR env (length (filter isCheckAuth c0)) = Inr st" "\<not> loggedIn st"
      using v
      by (auto simp: verifyLogin_def bindE_def ret_def checkGrammarlyAuthStatus_def call_apply
               split: sum.splits if_splits)
    obtain rf c3 where df: "detectLoginFailure env (c0 @ [CheckAuth]) = (rf, c3)"
      by (cases "detectLoginFailure env (c0 @ [CheckAuth])") auto
    obtain failure where f: "rf = Inr failure"
        "\<not> truthyBool (f_invalidCredentials failure)"
        "\<not> truthyBool (f_captchaDetected failure)"
        "\<not> truthyBool (f_rateLimited failure)"
        "calls1 = (if int attempt < maxRetries then c3 @ [Sleep (backoffDelay attempt)] else c3)"
      using v st df
      by (auto simp: verifyLogin_def bindE_def ret_def checkGrammarlyAuthStatus_def call_apply
            sleep_def split: sum.splits if_splits)
    show ?thesis
    proof (rule retriesUntil.unclassified [OF assms(1)])
      show "loginSteps env credentials calls = (Inr Continue, c0)" using ls r0 by simp
      show "checkGrammarlyAuthStatus env c0 = (Inr st, c0 @ [CheckAuth])"
        using st(1) by (simp add: checkGrammarlyAuthStatus_def call_apply)
      show "\<not> loggedIn st" by (rule st(2))
      show "detectLoginFailure env (c0 @ [CheckAuth]) = (Inr failure, c3)" using df f(1) by simp
      show "\<not> truthyBool (f_invalidCredentials failure)" by (rule f(2))
      show "\<not> truthyBool (f_captchaDetected failure)" by (rule f(3))
      show "\<not> truthyBool (f_rateLimited failure)" by (rule f(4))
      show "calls1 = (if int attempt < maxRetries then c3 @ [Sleep (backoffDelay attempt)] else c3)"
        by (rule f(5))
      show "retriesUntil env credentials maxRetries (Suc attempt) calls1 attempt' calls'"
        by (rule assms(3))
    qed
  qed
qed

text \<open>
  Claim C4. For every \<open>maxRetries\<close>: when the loop has arrived at an attempt within the
  budget, the authentication check after the submission fails and the failure classifier
  reports invalid credentials, a CAPTCHA or a rate limit, \<open>attemptGrammarlyLogin\<close> returns
  with \<open>success = false\<close> and the classifier's flags. The log of the run ends with the
  classifier's calls: no further attempt is made, and one authentication check has been
  made since the attempt began.
\<close>

theorem classified_failure_ends_login:
  assumes "pagesR env 0 = Inr True"
      and "retriesUntil env credentials (resolveMaxRetries options) 0 [Pages] attempt calls"
      and "int attempt \<le> resolveMaxRetries options"
      and "loginSteps env credentials calls = (Inr Continue, calls1)"
      and "checkGrammarlyAuthStatus env calls1 = (Inr authStatus, calls2)"
      and "\<not> loggedIn authStatus"
      and "detectLoginFailure env calls2 = (Inr failure, calls3)"
      and "f_invalidCredentials failure = Some True \<or> f_captchaDetected failure = Some True \<or>
           f_rateLimited failure = Some True"
  shows "attemptGrammarlyLogin env credentials options [] =
           (Inr \<lparr>success = False, error = f_error failure,
                 invalidCredentials = f_invalidCredentials failure,
                 captchaDetected = f_captchaDetected failure,
                 rateLimited = f_rateLimited failure\<rparr>, calls3) \<and>
         length (filter isCheckAuth calls3) = Suc (length (filter isCheckAuth calls))"
proof -
  let ?m = "resolveMaxRetries options"
  have "tryBlock env credentials ?m attempt calls =
          (Inr (Return (spreadFailure failure)), calls3)"
    using tryBlock_classified [OF assms(4-7)] assms(8) by (auto simp: truthyBool_def)
  then have "loginLoop env credentials ?m attempt calls = (Inr (spreadFailure failure), calls3)"
    using assms(3) by (intro loginLoop_Return attemptOnce_tryBlock_Inr)
  then have "attemptGrammarlyLogin env credentials options [] =
          (Inr (spreadFailure failure), calls3)"
    using attemptGrammarlyLogin_loop [of env "[]" credentials options] assms(1)
      retriesUntil_loginLoop [OF assms(2)]
    by simp
  moreover have "length (filter isCheckAuth calls1) = length (filter isCheckAuth calls)"
    by (rule loginSteps_no_CheckAuth [OF assms(4)])
  moreover have "calls2 = calls1 @ [CheckAuth]"
    using assms(5) by (simp add: checkGrammarlyAuthStatus_def call_apply)
  moreover have "length (filter isCheckAuth calls3) = length (filter isCheckAuth calls2)"
    by (rule detectLoginFailure_no_CheckAuth [OF assms(7)])
  ultimately show ?thesis
    by (simp add: spreadFailure_def)
qed

theorem classified_failure_ends_login_witness:
  "attemptGrammarlyLogin credentialErrorBrowser testCredentials
          (Some \<lparr>opt_timeoutMs = None, opt_maxRetries = Some 2\<rparr>) [] =
     (Inr \<lparr>success = False, error = Some ''Invalid credentials'',
           invalidCredentials = Some True, captchaDetected = None, rateLimited = None\<rparr>,
      [Pages, Url, Goto signinUrl ''load'', Sleep 2000, Observe emailOptionQuery,
       Observe emailFieldQuery, IsVisible ''input[type=\"email\"]'',
       Fill ''input[type=\"email\"]'' ''test@example.com'', Sleep 500,
       Act (Instruction continueInstruction), Sleep 2000, Observe passwordFieldQuery,
       Fill passwordSelector ''testPassword123'', Sleep 500,
       Act (Instruction submitInstruction), Sleep 3000, CheckAuth, Pages,
       Observe detectQuery])"
proof -
  let ?env = credentialErrorBrowser
  let ?options = "Some \<lparr>opt_timeoutMs = None, opt_maxRetries = Some 2\<rparr>"
  let ?c1 = "[Pages, Url, Goto signinUrl ''load'', Sleep 2000, Observe emailOptionQuery,
      Observe emailFieldQuery, IsVisible ''input[type=\"email\"]'',
      Fill ''input[type=\"email\"]'' (username testCredentials), Sleep 500,
      Act (Instruction continueInstruction), Sleep 2000, Observe passwordFieldQuery,
      Fill passwordSelector (password testCredentials), Sleep 500,
      Act (Instruction submitInstruction), Sleep 3000]"
  let ?st = "\<lparr>loggedIn = False, currentUrl = ''https://other-site.com''\<rparr>"
  let ?f = "\<lparr>f_error = Some ''Invalid credentials'', f_invalidCredentials = Some True,
             f_captchaDetected = None, f_rateLimited = None\<rparr>"
  have p: "pagesR ?env 0 = Inr True"
    by (simp add: credentialErrorBrowser_def mockBrowser_def)
  have m: "resolveMaxRetries ?options = 2"
    by (simp add: resolveMaxRetries_def)
  have r: "retriesUntil ?env testCredentials (resolveMaxRetries ?options) 0 [Pages] 0 [Pages]"
    by (rule retriesUntil.arrived)
  have steps: "loginSteps ?env testCredentials [Pages] = (Inr Continue, ?c1)"
    by (simp add: login_defs credentialErrorBrowser_def other_site)
  have check: "checkGrammarlyAuthStatus ?env ?c1 = (Inr ?st, ?c1 @ [CheckAuth])"
    by (simp add: login_defs credentialErrorBrowser_def)
  have detect: "detectLoginFailure ?env (?c1 @ [CheckAuth]) =
      (Inr ?f, ?c1 @ [CheckAuth, Pages, Observe detectQuery])"
    by (simp add: login_defs credentialErrorBrowser_def classify_incorrect_password)
  show ?thesis
    using classified_failure_ends_login [OF p r _ steps check _ detect] m
    by (simp add: testCredentials_def)
qed

text \<open>
  Claim C8 does not hold as stated: when the last attempt ends with an exception, the
  \<open>catch\<close> block returns that exception's message. With a navigation that always throws
  and the default of one retry, both attempts fail, none is classified, and the error
  returned is the navigation error.
\<close>

theorem retry_exhaustion_counterexample:
  "attemptGrammarlyLogin unreachableBrowser testCredentials None [] =
     (Inr \<lparr>success = False, error = Some ''net::ERR_CONNECTION_RESET'',
           invalidCredentials = None, captchaDetected = None, rateLimited = None\<rparr>,
      [Pages, Url, Goto signinUrl ''load'', Sleep 2000, Url, Goto signinUrl ''load'']) \<and>
   ''net::ERR_CONNECTION_RESET'' \<noteq> ''Login failed after all retry attempts''"
  by (simp add: login_defs unreachableBrowser_def other_site
        loginLoop.simps [of _ _ _ 0] loginLoop.simps [of _ _ _ "Suc 0"])

text \<open>
  Claim C8, as amended. For every integer \<open>maxRetries\<close>: when every attempt ends without
  a \<open>return\<close> (its authentication check fails without a classified failure, or, before
  the last attempt, it throws), the login returns \<open>success = false\<close> with the error
  "Login failed after all retry attempts"; when the last attempt, the one whose number is
  \<open>maxRetries\<close>, throws, the login returns \<open>success = false\<close> with the message of that
  exception.
\<close>

theorem exhausted_retries_message:
  "(pagesR env 0 = Inr True \<and>
    retriesUntil env credentials (resolveMaxRetries options) 0 [Pages] attempt calls \<and>
    \<not> int attempt \<le> resolveMaxRetries options \<longrightarrow>
      attemptGrammarlyLogin env credentials options [] =
        (Inr \<lparr>success = False, error = Some ''Login failed after all retry attempts'',
              invalidCredentials = None, captchaDetected = None, rateLimited = None\<rparr>,
         calls)) \<and>
   (pagesR env 0 = Inr True \<and>
    retriesUntil env credentials (resolveMaxRetries options) 0 [Pages] attempt calls \<and>
    int attempt = resolveMaxRetries options \<and>
    tryBlock env credentials (resolveMaxRetries options) attempt calls = (Inl e, calls1) \<longrightarrow>
      attemptGrammarlyLogin env credentials options [] =
        (Inr \<lparr>success = False,
              error = Some (case e of Error message \<Rightarrow> message | NonError \<Rightarrow> ''Unknown error''),
              invalidCredentials = None, captchaDetected = None, rateLimited = None\<rparr>,
         calls1))"
proof (intro conjI impI)
  assume a: "pagesR env 0 = Inr True \<and>
    retriesUntil env credentials (resolveMaxRetries options) 0 [Pages] attempt calls \<and>
    \<not> int attempt \<le> resolveMaxRetries options"
  then have "loginLoop env credentials (resolveMaxRetries options) 0 [Pages] =
      loginLoop env credentials (resolveMaxRetries options) attempt calls"
    using retriesUntil_loginLoop by blast
  then show "attemptGrammarlyLogin env credentials options [] =
        (Inr \<lparr>success = False, error = Some ''Login failed after all retry attempts'',
              invalidCredentials = None, captchaDetected = None, rateLimited = None\<rparr>,
         calls)"
    using a attemptGrammarlyLogin_loop [of env "[]" credentials options]
      loginLoop_finished [of attempt "resolveMaxRetries options" env credentials calls]
    by (simp add: failedWith_def)
next
  let ?m = "resolveMaxRetries options"
  assume a: "pagesR env 0 = Inr True \<and>
    retriesUntil env credentials ?m 0 [Pages] attempt calls \<and>
    int attempt = ?m \<and> tryBlock env credentials ?m attempt calls = (Inl e, calls1)"
  then have "attemptOnce env credentials ?m attempt calls =
      (Inr (Return (failedWith (case e of Error message \<Rightarrow> message
                                         | NonError \<Rightarrow> ''Unknown error''))), calls1)"
    using attemptOnce_tryBlock_Inl [of env credentials ?m attempt calls e calls1]
    by simp
  then have "loginLoop env credentials ?m attempt calls =
      (Inr (failedWith (case e of Error message \<Rightarrow> message
                                | NonError \<Rightarrow> ''Unknown error'')), calls1)"
    using a by (intro loginLoop_Return) simp_all
  moreover have "loginLoop env credentials ?m 0 [Pages] =
      loginLoop env credentials ?m attempt calls"
    using a retriesUntil_loginLoop by blast
  ultimately show "attemptGrammarlyLogin env credentials options [] =
        (Inr \<lparr>success = False,
              error = Some (case e of Error message \<Rightarrow> message | NonError \<Rightarrow> ''Unknown error''),
              invalidCredentials = None, captchaDetected = None, rateLimited = None\<rparr>,
         calls1)"
    using a attemptGrammarlyLogin_loop [of env "[]" credentials options]
    by (simp add: failedWith_def)
qed

lemma firstAttemptCalls_counts: "length (filter isObserve firstAttemptCalls) = 4"
  "length (filter isUrl firstAttemptCalls) = 1"
  "length (filter isPages firstAttemptCalls) = 2"
  "length (filter isAct firstAttemptCalls) = 2"
  "length (filter isFill firstAttemptCalls) = 2"
  "length (filter isIsVisible firstAttemptCalls) = 1"
  "length (filter isCheckAuth firstAttemptCalls) = 1"
  by (simp_all add: firstAttemptCalls_def)

lemma first_attempt_continues: "attemptOnce unclassifiedFailureBrowser testCredentials 1 0 [Pages] =
    (Inr Continue, firstAttemptCalls)"
  by (simp add: login_defs unclassifiedFailureBrowser_def signin_site classify_nothing
        noFailure_def truthyBool_def firstAttemptCalls_def)

lemma second_attempt_continues: "attemptOnce unclassifiedFailureBrowser testCredentials 1 1 firstAttemptCalls = (Inr Continue, 
   firstAttemptCalls @ [Url, Observe emailOptionQuery,
      Observe emailFieldQuery, IsVisible ''input[type=\"email\"]'',
      Fill ''input[type=\"email\"]'' (username testCredentials), Sleep 500,
      Act (Instruction continueInstruction), Sleep 2000, Observe passwordFieldQuery,
      Fill passwordSelector (password testCredentials), Sleep 500,
      Act (Instruction submitInstruction), Sleep 3000, CheckAuth, Pages, Observe detectQuery])"
    by (simp add: login_defs unclassifiedFailureBrowser_def signin_site classify_nothing
          noFailure_def truthyBool_def firstAttemptCalls_counts)


theorem exhausted_retries_message_witness:
  "fst (attemptGrammarlyLogin unclassifiedFailureBrowser testCredentials None []) =
     Inr \<lparr>success = False, error = Some ''Login failed after all retry attempts'',
          invalidCredentials = None, captchaDetected = None, rateLimited = None\<rparr> \<and>
   length (filter isCheckAuth
     (snd (attemptGrammarlyLogin unclassifiedFailureBrowser testCredentials None []))) = 2"
proof -
  let ?env = unclassifiedFailureBrowser
  have a1': "attemptOnce ?env testCredentials 1 (Suc 0) firstAttemptCalls =
      (Inr Continue, secondAttemptCalls)"
    using second_attempt_continues by (simp add: secondAttemptCalls_def)
  have e2: "retriesUntil ?env testCredentials 1 (Suc (Suc 0)) secondAttemptCalls
      (Suc (Suc 0)) secondAttemptCalls"
    by (rule retriesUntil.arrived)
  have e1: "retriesUntil ?env testCredentials 1 (Suc 0) firstAttemptCalls
      (Suc (Suc 0)) secondAttemptCalls"
    by (rule attemptOnce_Continue_retries [OF _ a1' e2]) simp
  have e0: "retriesUntil ?env testCredentials 1 0 [Pages] (Suc (Suc 0)) secondAttemptCalls"
    by (rule attemptOnce_Continue_retries [OF _ first_attempt_continues e1]) simp
  have p: "pagesR ?env 0 = Inr True"
    by (simp add: unclassifiedFailureBrowser_def mockBrowser_def)
  have m: "resolveMaxRetries None = 1"
    by (simp add: resolveMaxRetries_def DEFAULT_MAX_RETRIES_def)
  have n: "length (filter isCheckAuth secondAttemptCalls) = 2"
    by (simp add: secondAttemptCalls_def firstAttemptCalls_counts)
  show ?thesis
    using exhausted_retries_message
        [where env = ?env and options = None and credentials = testCredentials
           and attempt = "Suc (Suc 0)" and calls = secondAttemptCalls] e0 p m n
    by simp
qed

section \<open>Properties of the scoring task\<close>

lemma annotatePartial_marks:
  "str_includes (annotatePartial n) ''partial extraction''"
proof -
  have "annotatePartial n = (n @ '' ('') @ ''partial extraction'' @ '')''"
    by (simp add: annotatePartial_def partialExtractionMarker_def)
  then show ?thesis
    unfolding str_includes_def by (simp only: sublist_appendI)
qed

text \<open>
  Claim C5. When the primary extraction fails, exactly one fallback extraction is
  attempted. If it succeeds, its result is returned with the notes field annotated, so
  that the notes contain "partial extraction" and the other fields are those the
  fallback extracted; if it fails too, the error that reaches the caller is that of the
  primary extraction.
\<close>

theorem extractScores_fallback:
  "(extractR env (length (filter isExtract calls)) = Inl originalError \<and>
    extractR env (Suc (length (filter isExtract calls))) = Inr partial \<longrightarrow>
      extractScores env calls =
        (Inr (partial\<lparr>score_notes := annotatePartial (score_notes partial)\<rparr>),
         calls @ [Extract PrimaryExtraction, Extract FallbackExtraction]) \<and>
      str_includes (annotatePartial (score_notes partial)) ''partial extraction'' \<and>
      annotatePartial (score_notes partial) \<noteq> score_notes partial) \<and>
   (extractR env (length (filter isExtract calls)) = Inl originalError \<and>
    extractR env (Suc (length (filter isExtract calls))) = Inl fallbackError \<longrightarrow>
      extractScores env calls =
        (Inl originalError, calls @ [Extract PrimaryExtraction, Extract FallbackExtraction]))"
  by (simp add: extractScores_def tryCatch_def bindE_def ret_def stagehandExtract_def call_apply
        annotatePartial_marks)
     (simp add: annotatePartial_def)

theorem extractScores_fallback_witness:
  "extractScores
     (failingExtraction (Inr ((scoresOf 10 2)\<lparr>score_notes := ''Fallback extraction''\<rparr>))) [] =
     (Inr ((scoresOf 10 2)\<lparr>score_notes := ''Fallback extraction (partial extraction)''\<rparr>),
      [Extract PrimaryExtraction, Extract FallbackExtraction]) \<and>
   str_includes ''Fallback extraction (partial extraction)'' ''partial extraction'' \<and>
   extractScores (failingExtraction (Inl (Error ''Fallback also failed''))) [] =
     (Inl (Error ''Primary extraction failed''),
      [Extract PrimaryExtraction, Extract FallbackExtraction])"
  using extractScores_fallback
      [of "failingExtraction (Inr ((scoresOf 10 2)\<lparr>score_notes := ''Fallback extraction''\<rparr>))"
          "[]" "Error ''Primary extraction failed''"
          "(scoresOf 10 2)\<lparr>score_notes := ''Fallback extraction''\<rparr>"]
    extractScores_fallback
      [of "failingExtraction (Inl (Error ''Fallback also failed''))" "[]"
          "Error ''Primary extraction failed''" _ "Error ''Fallback also failed''"]
  by (simp add: failingExtraction_def annotatePartial_def partialExtractionMarker_def
        scoresOf_def)

text \<open>
  Claim C6. The text passed to the fill of the content-editable region is the first 8000
  characters of the input when the input is longer than 8000 characters, and the input
  itself otherwise.
\<close>

theorem injectText_truncates:
  "snd (injectText env t calls) =
     calls @ [Fill editorSelector (if 8000 < length t then take 8000 t else t)] \<and>
   (8000 < length t \<longrightarrow> length (take 8000 t) = 8000)"
  by (simp add: injectText_def fill_def call_apply MAX_TEXT_LENGTH_def)

theorem injectText_truncates_witness:
  "snd (injectText (mockBrowser ''https://app.grammarly.com'' [] [])
          (replicate 10000 (CHR ''a'')) []) =
     [Fill editorSelector (replicate 8000 (CHR ''a''))] \<and>
   snd (injectText (mockBrowser ''https://app.grammarly.com'' [] []) ''Short test text'' []) =
     [Fill editorSelector ''Short test text'']"
  using injectText_truncates
      [of "mockBrowser ''https://app.grammarly.com'' [] []" "replicate 10000 (CHR ''a'')" "[]"]
    injectText_truncates
      [of "mockBrowser ''https://app.grammarly.com'' [] []" "''Short test text''" "[]"]
  by simp

section \<open>Properties of the optimization loop\<close>

lemma appendsOnly_onProgress [intro!]:
  "(\<And>m x. P (Progress m x)) \<Longrightarrow> appendsOnly P (onProgress env message progress)"
  by (auto simp: onProgress_def split: option.splits)

lemma appendsOnly_scoreAndOptimize_norewrite:
  assumes "mode input \<noteq> Optimize"
  shows "appendsOnly (\<lambda>c. \<not> isRewriteText c) (scoreAndOptimize env input sessionId)"
  using assms
  unfolding scoreAndOptimize_def Let_def runGrammarlyScoreTask_def analyzeTextWithClaude_def
  by (cases "mode input") auto


lemma returnsOnly_scoreAndOptimize:
  assumes "mode input \<noteq> Optimize"
  shows "returnsOnly (\<lambda>r. final_text r = input_text input \<and> iterations_used r = 0)
           (scoreAndOptimize env input sessionId)"
  using assms
  unfolding scoreAndOptimize_def Let_def
  by (cases "mode input") auto

lemma finallyBody_result:
  "finallyBody env sessionId calls =
     (Inr (), case sessionId of
                None \<Rightarrow> calls
              | Some sid \<Rightarrow> if sid \<noteq> [] then calls @ [DeleteSession sid] else calls)"
  by (auto simp: finallyBody_def ret_def tryCatch_def deleteSession_def call_apply
           split: option.splits sum.splits)

lemma run_unfold:
  "runGrammarlyOptimization env input calls =
     (case onProgress env CreatingSession 5 calls of
        (Inl e, calls1) \<Rightarrow> (Inl e, calls1)
      | (Inr _, calls1) \<Rightarrow>
          (case createBrowserUseClient env calls1 of
             (Inl e, calls2) \<Rightarrow> (Inl e, calls2)
           | (Inr _, calls2) \<Rightarrow>
               (fst (fst (tryBody env input calls2)),
                snd (finallyBody env (snd (fst (tryBody env input calls2)))
                       (snd (tryBody env input calls2))))))"
  by (simp add: runGrammarlyOptimization_def bindE_def finallyBody_result
           split: prod.splits sum.splits)

lemma tryBody_outcome:
  "fst (fst (tryBody env input calls)) = Inr r \<Longrightarrow>
     \<exists>sid calls1. fst (scoreAndOptimize env input sid calls1) = Inr r"
  by (auto simp: tryBody_def split: prod.splits sum.splits) (metis fst_conv)

lemma appendsOnly_run:
  assumes "\<And>sid. appendsOnly P (scoreAndOptimize env input sid)"
      and "\<And>m x. P (Progress m x)" "P CreateClient" "P CreateSession" "\<And>sid. P (DeleteSession sid)"
  shows "appendsOnly P (runGrammarlyOptimization env input)"
proof -
  have tb: "\<exists>new. snd (tryBody env input calls) = calls @ new \<and> (\<forall>c\<in>set new. P c)" for calls
  proof (cases "createSessionR env (length (filter isCreateSession calls))")
    case (Inl e)
    then show ?thesis
      using assms(4) by (simp add: tryBody_def createGrammarlySession_def call_apply)
  next
    case (Inr sid)
    obtain new where "snd (scoreAndOptimize env input sid (calls @ [CreateSession])) =
        (calls @ [CreateSession]) @ new" "\<forall>c\<in>set new. P c"
      using appendsOnlyD [OF assms(1)] by blast
    then have "snd (tryBody env input calls) = calls @ (CreateSession # new) \<and>
        (\<forall>c\<in>set (CreateSession # new). P c)"
      using Inr assms(4)
      by (auto simp: tryBody_def createGrammarlySession_def call_apply split: prod.splits)
    then show ?thesis by blast
  qed
  have fin: "\<exists>new. snd (finallyBody env sid calls) = calls @ new \<and> (\<forall>c\<in>set new. P c)" for sid calls
    using assms(5) by (auto simp: finallyBody_result split: option.splits)
  have tail: "appendsOnly P (\<lambda>calls. (fst (fst (tryBody env input calls)),
                snd (finallyBody env (snd (fst (tryBody env input calls)))
                       (snd (tryBody env input calls)))))"
    unfolding appendsOnly_def
  proof
    fix calls
    obtain new1 where n1: "snd (tryBody env input calls) = calls @ new1" "\<forall>c\<in>set new1. P c"
      using tb by blast
    obtain new2 where n2: "snd (finallyBody env (snd (fst (tryBody env input calls))) (calls @ new1)) =
        (calls @ new1) @ new2" "\<forall>c\<in>set new2. P c"
      using fin by blast
    have "snd (finallyBody env (snd (fst (tryBody env input calls))) (snd (tryBody env input calls))) =
        calls @ (new1 @ new2) \<and> (\<forall>c\<in>set (new1 @ new2). P c)"
      using n1 n2 by auto
    then show "\<exists>new. snd (fst (fst (tryBody env input calls)),
                snd (finallyBody env (snd (fst (tryBody env input calls)))
                       (snd (tryBody env input calls)))) = calls @ new \<and> (\<forall>c\<in>set new. P c)"
      by (metis snd_conv)
  qed
  have "runGrammarlyOptimization env input =
      bindE (onProgress env CreatingSession 5) (\<lambda>_.
      bindE (createBrowserUseClient env) (\<lambda>_.
        (\<lambda>calls. (fst (fst (tryBody env input calls)),
                snd (finallyBody env (snd (fst (tryBody env input calls)))
                       (snd (tryBody env input calls)))))))"
    by (rule ext) (simp add: run_unfold bindE_def split: prod.splits sum.splits)
  then show ?thesis
    using tail assms(2,3) by (auto simp: createBrowserUseClient_def)
qed

text \<open>
  Claim C10. In the modes \<open>score_only\<close> and \<open>analyze\<close> the \<open>final_text\<close> of a returned
  result is the input text, and the rewrite step is never called.
\<close>

theorem score_only_and_analyze_keep_text:
  assumes "mode input = ScoreOnly \<or> mode input = Analyze"
  shows "(\<forall>r. fst (runGrammarlyOptimization env input calls) = Inr r \<longrightarrow>
            final_text r = input_text input) \<and>
         filter isRewriteText (snd (runGrammarlyOptimization env input calls)) =
           filter isRewriteText calls"
proof -
  have m: "mode input \<noteq> Optimize" using assms by auto
  have "final_text r = input_text input"
    if "fst (runGrammarlyOptimization env input calls) = Inr r" for r
  proof -
    have "\<exists>calls2. fst (fst (tryBody env input calls2)) = Inr r"
      using that by (auto simp: run_unfold split: prod.splits sum.splits)
    then obtain sid calls1 where "fst (scoreAndOptimize env input sid calls1) = Inr r"
      using tryBody_outcome by blast
    then show ?thesis
      using returnsOnly_scoreAndOptimize [OF m, of env sid] by (auto simp: returnsOnly_def)
  qed
  moreover have "appendsOnly (\<lambda>c. \<not> isRewriteText c) (runGrammarlyOptimization env input)"
    by (rule appendsOnly_run) (simp_all add: appendsOnly_scoreAndOptimize_norewrite [OF m])
  ultimately show ?thesis
    using appendsOnly_filter [of isRewriteText "runGrammarlyOptimization env input" calls]
    by blast
qed

theorem score_only_and_analyze_keep_text_witness:
  "(\<exists>r. fst (runGrammarlyOptimization (mockServices [scoresOf 15 3])
             (exampleInput ScoreOnly 5) []) = Inr r \<and> final_text r = ''Original text'') \<and>
   filter isRewriteText (snd (runGrammarlyOptimization (mockServices [scoresOf 15 3])
             (exampleInput ScoreOnly 5) [])) = [] \<and>
   (\<exists>r. fst (runGrammarlyOptimization (mockServices [scoresOf 15 3])
             (exampleInput Analyze 5) []) = Inr r \<and> final_text r = ''Original text'')"
proof -
  have m: "mode (exampleInput ScoreOnly 5) = ScoreOnly \<or> mode (exampleInput ScoreOnly 5) = Analyze"
    by (simp add: exampleInput_def)
  have m2: "mode (exampleInput Analyze 5) = ScoreOnly \<or> mode (exampleInput Analyze 5) = Analyze"
    by (simp add: exampleInput_def)
  have r1: "\<exists>r. fst (runGrammarlyOptimization (mockServices [scoresOf 15 3])
             (exampleInput ScoreOnly 5) []) = Inr r"
    by (simp add: run_unfold onProgress_def ret_def createBrowserUseClient_def call_apply
          tryBody_def createGrammarlySession_def scoreAndOptimize_def Let_def bindE_def
          runGrammarlyScoreTask_def mockServices_def exampleInput_def)
  have r2: "\<exists>r. fst (runGrammarlyOptimization (mockServices [scoresOf 15 3])
             (exampleInput Analyze 5) []) = Inr r"
    by (simp add: run_unfold onProgress_def ret_def createBrowserUseClient_def call_apply
          tryBody_def createGrammarlySession_def scoreAndOptimize_def Let_def bindE_def
          runGrammarlyScoreTask_def analyzeTextWithClaude_def mockServices_def exampleInput_def)
  have t: "input_text (exampleInput m n) = ''Original text''" for m n
    by (simp add: exampleInput_def)
  show ?thesis
    using score_only_and_analyze_keep_text [OF m, of "mockServices [scoresOf 15 3]" "[]"]
      score_only_and_analyze_keep_text [OF m2, of "mockServices [scoresOf 15 3]" "[]"] r1 r2
    by (auto simp: t)
qed

lemma onProgress_ok:
  "progressNeverThrows env \<Longrightarrow>
     onProgress env message progress calls = (Inr (), calls @ progressCalls env message progress)"
  by (auto simp: progressNeverThrows_def onProgress_def progressCalls_def ret_def call_apply
           split: option.splits)

lemma filter_progressCalls [simp]:
  "filter isRewriteText (progressCalls env m x) = []"
  "filter isScoreTask (progressCalls env m x) = []"
  "filter isSummarize (progressCalls env m x) = []"
  "filter isCreateClient (progressCalls env m x) = []"
  "filter isCreateSession (progressCalls env m x) = []"
  by (auto simp: progressCalls_def split: option.splits)

lemma optimizeIteration_ok:
  assumes "progressNeverThrows env"
      and "rewriteR env (length (filter isRewriteText calls)) = Inr rw"
      and "scoreTaskR env (length (filter isScoreTask calls)) = Inr sc"
  shows "\<exists>new. optimizeIteration env input sid i st calls =
           (Inr \<lparr>currentText = rewrittenText rw, lastScores = sc, iterationsUsed = i,
                 reachedThresholds =
                   thresholdsMet sc (max_ai_percent input) (max_plagiarism_percent input),
                 historyEntries = historyEntries st @ [historyEntry i sc (reasoning rw)]\<rparr>,
            calls @ new) \<and>
         length (filter isRewriteText new) = 1 \<and> length (filter isScoreTask new) = 1 \<and>
         filter isSummarize new = []"
  using assms
  by (simp add: optimizeIteration_def Let_def bindE_def ret_def onProgress_ok
        rewriteTextWithClaude_def runGrammarlyScoreTask_def call_apply)

lemma optimizeLoop_stops:
  assumes "progressNeverThrows env"
      and "1 \<le> i" "i \<le> k" "int k \<le> max_iterations input"
      and "length (filter isRewriteText calls) = i - 1"
      and "length (filter isScoreTask calls) = i"
      and "\<forall>j. i \<le> j \<and> j < k \<longrightarrow>
             (\<exists>s. scoreTaskR env j = Inr s \<and>
                  \<not> thresholdsMet s (max_ai_percent input) (max_plagiarism_percent input))"
      and "scoreTaskR env k = Inr sk"
      and "thresholdsMet sk (max_ai_percent input) (max_plagiarism_percent input)"
      and "\<forall>j. j < k \<longrightarrow> (\<exists>r. rewriteR env j = Inr r)"
  shows "\<exists>st' new. optimizeLoop env input sid (int i) st calls = (Inr st', calls @ new) \<and>
           iterationsUsed st' = int k \<and> reachedThresholds st' \<and> lastScores st' = sk \<and>
           length (historyEntries st') = length (historyEntries st) + (k - i + 1) \<and>
           length (filter isRewriteText new) = k - i + 1 \<and>
           length (filter isScoreTask new) = k - i + 1 \<and>
           filter isSummarize new = []"
  using assms
proof (induction "k - i" arbitrary: i st calls)
  case 0
  then have ik: "i = k" by simp
  obtain rw where rw: "rewriteR env (length (filter isRewriteText calls)) = Inr rw"
    using 0 by (metis One_nat_def Suc_pred diff_le_self le_imp_less_Suc less_le_trans zero_less_one le_eq_less_or_eq not_le)
  have sc: "scoreTaskR env (length (filter isScoreTask calls)) = Inr sk"
    using 0 ik by simp
  obtain new where it: "optimizeIteration env input sid (int i) st calls =
           (Inr \<lparr>currentText = rewrittenText rw, lastScores = sk, iterationsUsed = int i,
                 reachedThresholds =
                   thresholdsMet sk (max_ai_percent input) (max_plagiarism_percent input),
                 historyEntries = historyEntries st @ [historyEntry (int i) sk (reasoning rw)]\<rparr>,
            calls @ new)"
      "length (filter isRewriteText new) = 1" "length (filter isScoreTask new) = 1"
      "filter isSummarize new = []"
    using optimizeIteration_ok [OF "0.prems"(1) rw sc] by blast
  show ?case
    using it 0 ik by (subst optimizeLoop.simps) simp
next
  case (Suc d)
  then have ik: "i < k" by simp
  obtain rw where rw: "rewriteR env (length (filter isRewriteText calls)) = Inr rw"
    using Suc.prems ik by (metis diff_le_self le_less_trans)
  obtain sc where sc: "scoreTaskR env (length (filter isScoreTask calls)) = Inr sc"
      "\<not> thresholdsMet sc (max_ai_percent input) (max_plagiarism_percent input)"
    using Suc.prems ik by (metis order_refl)
  obtain new where it: "optimizeIteration env input sid (int i) st calls =
           (Inr \<lparr>currentText = rewrittenText rw, lastScores = sc, iterationsUsed = int i,
                 reachedThresholds =
                   thresholdsMet sc (max_ai_percent input) (max_plagiarism_percent input),
                 historyEntries = historyEntries st @ [historyEntry (int i) sc (reasoning rw)]\<rparr>,
            calls @ new)"
      "length (filter isRewriteText new) = 1" "length (filter isScoreTask new) = 1"
      "filter isSummarize new = []"
    using optimizeIteration_ok [OF Suc.prems(1) rw sc(1)] by blast
  let ?st1 = "\<lparr>currentText = rewrittenText rw, lastScores = sc, iterationsUsed = int i,
                 reachedThresholds =
                   thresholdsMet sc (max_ai_percent input) (max_plagiarism_percent input),
                 historyEntries = historyEntries st @ [historyEntry (int i) sc (reasoning rw)]\<rparr>"
  have d: "d = k - Suc i" using Suc.hyps(2) by simp
  have ih: "\<exists>st' new'. optimizeLoop env input sid (int (Suc i)) ?st1 (calls @ new) =
              (Inr st', (calls @ new) @ new') \<and>
           iterationsUsed st' = int k \<and> reachedThresholds st' \<and> lastScores st' = sk \<and>
           length (historyEntries st') = length (historyEntries ?st1) + (k - Suc i + 1) \<and>
           length (filter isRewriteText new') = k - Suc i + 1 \<and>
           length (filter isScoreTask new') = k - Suc i + 1 \<and>
           filter isSummarize new' = []"
  proof (rule Suc.hyps(1) [OF d Suc.prems(1)])
    show "1 \<le> Suc i" by simp
    show "Suc i \<le> k" using ik by simp
    show "int k \<le> max_iterations input" by (rule Suc.prems(4))
    show "length (filter isRewriteText (calls @ new)) = Suc i - 1"
      using Suc.prems(2,5) it(2) by simp
    show "length (filter isScoreTask (calls @ new)) = Suc i"
      using Suc.prems(6) it(3) by simp
    show "\<forall>j. Suc i \<le> j \<and> j < k \<longrightarrow>
             (\<exists>s. scoreTaskR env j = Inr s \<and>
                  \<not> thresholdsMet s (max_ai_percent input) (max_plagiarism_percent input))"
      using Suc.prems(7) by auto
    show "scoreTaskR env k = Inr sk" by (rule Suc.prems(8))
    show "thresholdsMet sk (max_ai_percent input) (max_plagiarism_percent input)"
      by (rule Suc.prems(9))
    show "\<forall>j. j < k \<longrightarrow> (\<exists>r. rewriteR env j = Inr r)" by (rule Suc.prems(10))
  qed
  then obtain st' new' where r: "optimizeLoop env input sid (int (Suc i)) ?st1 (calls @ new) =
              (Inr st', (calls @ new) @ new')"
      "iterationsUsed st' = int k" "reachedThresholds st'" "lastScores st' = sk"
      "length (historyEntries st') = length (historyEntries ?st1) + (k - Suc i + 1)"
      "length (filter isRewriteText new') = k - Suc i + 1"
      "length (filter isScoreTask new') = k - Suc i + 1"
      "filter isSummarize new' = []"
    by blast
  have i1: "int i + 1 = int (Suc i)" by simp
  have "optimizeLoop env input sid (int i) st calls = (Inr st', calls @ (new @ new'))"
    using it(1) sc(2) r(1) ik Suc.prems(4)
    by (subst optimizeLoop.simps) (simp add: i1 del: of_nat_Suc)
  moreover have "length (historyEntries st') = length (historyEntries st) + (k - i + 1)"
    using r(5) ik by simp
  moreover have "length (filter isRewriteText (new @ new')) = k - i + 1"
    using it(2) r(6) ik by simp
  moreover have "length (filter isScoreTask (new @ new')) = k - i + 1"
    using it(3) r(7) ik by simp
  moreover have "filter isSummarize (new @ new') = []"
    using it(4) r(8) by simp
  ultimately show ?case
    using r(2,3,4) by blast
qed


text \<open>
  Claim C2. In \<open>optimize\<close> mode, when iteration \<open>k\<close> (\<open>1 \<le> k \<le> max_iterations\<close>) is the first
  whose scores satisfy the thresholds, and the collaborators answer without an exception
  up to there, the loop stops after iteration \<open>k\<close>: the result has \<open>iterations_used = k\<close>,
  \<open>thresholds_met = true\<close> and a history of \<open>k + 1\<close> entries, and the run has made \<open>k\<close> rewrite
  calls and \<open>k + 1\<close> scoring calls.
\<close>

theorem optimize_stops_when_thresholds_met:
  assumes "mode input = Optimize"
      and "1 \<le> k" and "int k \<le> max_iterations input"
      and "progressNeverThrows env"
      and "createClientR env 0 = Inr ()"
      and "createSessionR env 0 = Inr sid"
      and "\<exists>s. scoreTaskR env 0 = Inr s"
      and "\<forall>j. 1 \<le> j \<and> j < k \<longrightarrow>
             (\<exists>s. scoreTaskR env j = Inr s \<and>
                  \<not> thresholdsMet s (max_ai_percent input) (max_plagiarism_percent input))"
      and "scoreTaskR env k = Inr sk"
      and "thresholdsMet sk (max_ai_percent input) (max_plagiarism_percent input)"
      and "\<forall>j. j < k \<longrightarrow> (\<exists>r. rewriteR env j = Inr r)"
      and "summarizeR env 0 = Inr summary"
  shows "\<exists>r calls. runGrammarlyOptimization env input [] = (Inr r, calls) \<and>
           iterations_used r = int k \<and> thresholds_met r \<and> length (history r) = k + 1 \<and>
           ai_detection_percent r = aiDetectionPercent sk \<and>
           plagiarism_percent r = plagiarismPercent sk \<and>
           length (filter isRewriteText calls) = k \<and>
           length (filter isScoreTask calls) = k + 1"
proof -
  obtain s0 where s0: "scoreTaskR env 0 = Inr s0"
    using assms(7) by blast
  let ?p1 = "progressCalls env CreatingSession 5"
  let ?p2 = "progressCalls env InitialScoring 10"
  let ?p3 = "progressCalls env StartingLoop 15"
  let ?c0 = "?p1 @ [CreateClient, CreateSession] @ ?p2 @ [ScoreTask sid (input_text input)] @ ?p3"
  let ?st0 = "\<lparr>currentText = input_text input, lastScores = s0, iterationsUsed = 0,
               reachedThresholds = False,
               historyEntries =
                 [historyEntry 0 s0 ''Baseline Grammarly scores on original text (iteration 0).'']\<rparr>"
  have "\<exists>st' new. optimizeLoop env input sid (int 1) ?st0 ?c0 = (Inr st', ?c0 @ new) \<and>
           iterationsUsed st' = int k \<and> reachedThresholds st' \<and> lastScores st' = sk \<and>
           length (historyEntries st') = length (historyEntries ?st0) + (k - 1 + 1) \<and>
           length (filter isRewriteText new) = k - 1 + 1 \<and>
           length (filter isScoreTask new) = k - 1 + 1 \<and>
           filter isSummarize new = []"
  proof (rule optimizeLoop_stops [OF assms(4) _ assms(2,3)])
    show "(1::nat) \<le> 1" by simp
    show "length (filter isRewriteText ?c0) = 1 - 1" by simp
    show "length (filter isScoreTask ?c0) = 1" by simp
    show "\<forall>j. 1 \<le> j \<and> j < k \<longrightarrow>
             (\<exists>s. scoreTaskR env j = Inr s \<and>
                  \<not> thresholdsMet s (max_ai_percent input) (max_plagiarism_percent input))"
      by (rule assms(8))
    show "scoreTaskR env k = Inr sk" by (rule assms(9))
    show "thresholdsMet sk (max_ai_percent input) (max_plagiarism_percent input)"
      by (rule assms(10))
    show "\<forall>j. j < k \<longrightarrow> (\<exists>r. rewriteR env j = Inr r)" by (rule assms(11))
  qed
  then obtain st' new where loop: "optimizeLoop env input sid 1 ?st0 ?c0 = (Inr st', ?c0 @ new)"
      "iterationsUsed st' = int k" "reachedThresholds st'" "lastScores st' = sk"
      "length (historyEntries st') = k + 1"
      "length (filter isRewriteText new) = k"
      "length (filter isScoreTask new) = k"
      "filter isSummarize new = []"
    using assms(2) by auto
  let ?c1 = "?p1 @ [CreateClient, CreateSession]"
  have sao: "scoreAndOptimize env input sid ?c1 =
      (Inr \<lparr>final_text = currentText st',
            ai_detection_percent = aiDetectionPercent (lastScores st'),
            plagiarism_percent = plagiarismPercent (lastScores st'),
            iterations_used = iterationsUsed st',
            thresholds_met = reachedThresholds st',
            history = historyEntries st',
            result_notes = summary\<rparr>,
       ?c0 @ new @ progressCalls env GeneratingSummary 92 @
         [Summarize \<lparr>sm_mode = mode input,
                    sm_iterationsUsed = iterationsUsed st',
                    sm_thresholdsMet = reachedThresholds st',
                    sm_history = historyEntries st',
                    finalText = currentText st',
                    sm_maxAiPercent = max_ai_percent input,
                    sm_maxPlagiarismPercent = max_plagiarism_percent input\<rparr>] @
         progressCalls env OptimizationComplete 100)"
    using assms(1,4,12) s0 loop(1,8)
    by (simp add: scoreAndOptimize_def Let_def bindE_def ret_def onProgress_ok
          runGrammarlyScoreTask_def summarizeOptimizationWithClaude_def call_apply)
  have tb: "tryBody env input (?p1 @ [CreateClient]) =
      ((fst (scoreAndOptimize env input sid ?c1), Some sid),
       snd (scoreAndOptimize env input sid ?c1))"
    using assms(6)
    by (simp add: tryBody_def createGrammarlySession_def call_apply split: prod.splits)
  show ?thesis
    using assms(4,5) loop(2-7)
    by (simp add: run_unfold onProgress_ok createBrowserUseClient_def call_apply tb sao
          finallyBody_result)
qed

theorem optimize_stops_when_thresholds_met_witness:
  "\<exists>r calls. runGrammarlyOptimization (mockServices [scoresOf 15 3, scoresOf 8 2])
                (exampleInput Optimize 5) [] = (Inr r, calls) \<and>
     iterations_used r = 1 \<and> thresholds_met r \<and> length (history r) = 2 \<and>
     ai_detection_percent r = Some (Num 8) \<and> plagiarism_percent r = Some (Num 2) \<and>
     length (filter isRewriteText calls) = 1 \<and> length (filter isScoreTask calls) = 2"
proof -
  let ?env = "mockServices [scoresOf 15 3, scoresOf 8 2]"
  let ?input = "exampleInput Optimize 5"
  have "\<exists>r calls. runGrammarlyOptimization ?env ?input [] = (Inr r, calls) \<and>
           iterations_used r = int 1 \<and> thresholds_met r \<and> length (history r) = 1 + 1 \<and>
           ai_detection_percent r = aiDetectionPercent (scoresOf 8 2) \<and>
           plagiarism_percent r = plagiarismPercent (scoresOf 8 2) \<and>
           length (filter isRewriteText calls) = 1 \<and>
           length (filter isScoreTask calls) = 1 + 1"
  proof (rule optimize_stops_when_thresholds_met [where sid = "''bu-session-12345''"
            and summary = "''summary''"])
    show "mode ?input = Optimize" by (simp add: exampleInput_def)
    show "(1::nat) \<le> 1" by simp
    show "int 1 \<le> max_iterations ?input" by (simp add: exampleInput_def)
    show "progressNeverThrows ?env" by (simp add: progressNeverThrows_def mockServices_def)
    show "createClientR ?env 0 = Inr ()" by (simp add: mockServices_def)
    show "createSessionR ?env 0 = Inr ''bu-session-12345''" by (simp add: mockServices_def)
    show "\<exists>s. scoreTaskR ?env 0 = Inr s" by (simp add: mockServices_def)
    show "\<forall>j. 1 \<le> j \<and> j < 1 \<longrightarrow>
            (\<exists>s. scoreTaskR ?env j = Inr s \<and>
                 \<not> thresholdsMet s (max_ai_percent ?input) (max_plagiarism_percent ?input))"
      by simp
    show "scoreTaskR ?env 1 = Inr (scoresOf 8 2)" by (simp add: mockServices_def)
    show "thresholdsMet (scoresOf 8 2) (max_ai_percent ?input) (max_plagiarism_percent ?input)"
      by (simp add: thresholdsMet_def scoresOf_def exampleInput_def)
    show "\<forall>j. j < 1 \<longrightarrow> (\<exists>r. rewriteR ?env j = Inr r)" by (simp add: mockServices_def)
    show "summarizeR ?env 0 = Inr ''summary''" by (simp add: mockServices_def)
  qed
  then show ?thesis by (simp add: scoresOf_def numeral_2_eq_2)
qed

lemma collaborators_deleteSessionR:
  "onProgress (env\<lparr>deleteSessionR := d\<rparr>) = onProgress env"
  "runGrammarlyScoreTask (env\<lparr>deleteSessionR := d\<rparr>) = runGrammarlyScoreTask env"
  "rewriteTextWithClaude (env\<lparr>deleteSessionR := d\<rparr>) = rewriteTextWithClaude env"
  "analyzeTextWithClaude (env\<lparr>deleteSessionR := d\<rparr>) = analyzeTextWithClaude env"
  "summarizeOptimizationWithClaude (env\<lparr>deleteSessionR := d\<rparr>) =
     summarizeOptimizationWithClaude env"
  "createGrammarlySession (env\<lparr>deleteSessionR := d\<rparr>) = createGrammarlySession env"
  "createBrowserUseClient (env\<lparr>deleteSessionR := d\<rparr>) = createBrowserUseClient env"
  by (simp_all add: fun_eq_iff onProgress_def runGrammarlyScoreTask_def
        rewriteTextWithClaude_def analyzeTextWithClaude_def
        summarizeOptimizationWithClaude_def createGrammarlySession_def
        createBrowserUseClient_def)

lemma optimizeIteration_deleteSessionR:
  "optimizeIteration (env\<lparr>deleteSessionR := d\<rparr>) input sid i st = optimizeIteration env input sid i st"
  by (simp add: optimizeIteration_def collaborators_deleteSessionR)

lemma optimizeLoop_deleteSessionR:
  "optimizeLoop (env\<lparr>deleteSessionR := d\<rparr>) input sid i st calls = optimizeLoop env input sid i st calls"
proof (induction env input sid i st calls rule: optimizeLoop.induct)
  case (1 env input sid i st calls)
  show ?case
    using 1
    by (subst optimizeLoop.simps, subst (2) optimizeLoop.simps)
       (auto simp: optimizeIteration_deleteSessionR split: prod.splits sum.splits)
qed

lemma tryBody_deleteSessionR:
  "tryBody (env\<lparr>deleteSessionR := d\<rparr>) input calls = tryBody env input calls"
proof -
  have "optimizeLoop (env\<lparr>deleteSessionR := d\<rparr>) input sid i st = optimizeLoop env input sid i st"
    for sid i st
    by (rule ext) (rule optimizeLoop_deleteSessionR)
  then have "scoreAndOptimize (env\<lparr>deleteSessionR := d\<rparr>) input sid = scoreAndOptimize env input sid"
    for sid
    by (simp add: scoreAndOptimize_def collaborators_deleteSessionR Let_def cong: if_cong)
  then show ?thesis
    by (simp add: tryBody_def collaborators_deleteSessionR cong: prod.case_cong sum.case_cong)
qed

lemma run_outcome:
  "fst (runGrammarlyOptimization env input calls) =
     (case onProgress env CreatingSession 5 calls of
        (Inl e, calls1) \<Rightarrow> Inl e
      | (Inr _, calls1) \<Rightarrow>
          (case createBrowserUseClient env calls1 of
             (Inl e, calls2) \<Rightarrow> Inl e
           | (Inr _, calls2) \<Rightarrow> fst (fst (tryBody env input calls2))))"
  by (simp add: run_unfold split: prod.splits sum.splits)

text \<open>
  Claim C9. The session teardown runs in the \<open>finally\<close> block after the main flow, whatever
  its outcome: the outcome of a run (the result or the exception) does not depend on how
  \<open>deleteSession\<close> answers, so a failing teardown neither changes the result nor replaces
  the error; and once a session with a non-empty id has been created, the last call of
  the run is the deletion of that session.
\<close>

theorem teardown_never_changes_outcome:
  "fst (runGrammarlyOptimization (env\<lparr>deleteSessionR := d\<rparr>) input calls) =
     fst (runGrammarlyOptimization env input calls) \<and>
   (createSessionR env 0 = Inr sid \<and> sid \<noteq> [] \<and>
    CreateSession \<in> set (snd (runGrammarlyOptimization env input [])) \<longrightarrow>
      last (snd (runGrammarlyOptimization env input [])) = DeleteSession sid)"
proof
  show "fst (runGrammarlyOptimization (env\<lparr>deleteSessionR := d\<rparr>) input calls) =
     fst (runGrammarlyOptimization env input calls)"
    by (simp add: run_outcome tryBody_deleteSessionR collaborators_deleteSessionR
          cong: prod.case_cong sum.case_cong)
next
  show "createSessionR env 0 = Inr sid \<and> sid \<noteq> [] \<and>
    CreateSession \<in> set (snd (runGrammarlyOptimization env input [])) \<longrightarrow>
      last (snd (runGrammarlyOptimization env input [])) = DeleteSession sid"
  proof
    assume a: "createSessionR env 0 = Inr sid \<and> sid \<noteq> [] \<and>
      CreateSession \<in> set (snd (runGrammarlyOptimization env input []))"
    obtain r1 c1 where p: "onProgress env CreatingSession 5 [] = (r1, c1)"
      by (cases "onProgress env CreatingSession 5 []") auto
    have c1: "filter isCreateSession c1 = []" "CreateSession \<notin> set c1"
      using p by (auto simp: onProgress_def ret_def call_apply split: option.splits)
    show "last (snd (runGrammarlyOptimization env input [])) = DeleteSession sid"
    proof (cases r1)
      case (Inl e)
      then show ?thesis using a p c1 by (simp add: run_unfold)
    next
      case (Inr u)
      show ?thesis
      proof (cases "createClientR env (length (filter isCreateClient c1))")
        case (Inl e)
        then show ?thesis
          using a p c1 Inr by (simp add: run_unfold createBrowserUseClient_def call_apply)
      next
        case r: (Inr u')
        have "snd (fst (tryBody env input (c1 @ [CreateClient]))) = Some sid"
          using a c1
          by (simp add: tryBody_def createGrammarlySession_def call_apply split: prod.splits)
        then show ?thesis
          using a p Inr r
          by (simp add: run_unfold createBrowserUseClient_def call_apply finallyBody_result)
      qed
    qed
  qed
qed

theorem teardown_never_changes_outcome_witness:
  "\<exists>r. fst (runGrammarlyOptimization
             ((mockServices [scoresOf 15 3])\<lparr>deleteSessionR := (\<lambda>_. Inl (Error ''Teardown failed''))\<rparr>)
             (exampleInput ScoreOnly 5) []) = Inr r \<and>
        fst (runGrammarlyOptimization (mockServices [scoresOf 15 3]) (exampleInput ScoreOnly 5) []) = Inr r \<and>
        last (snd (runGrammarlyOptimization (mockServices [scoresOf 15 3]) (exampleInput ScoreOnly 5) []))
          = DeleteSession ''bu-session-12345''"
proof -
  have r1: "\<exists>r. runGrammarlyOptimization (mockServices [scoresOf 15 3])
             (exampleInput ScoreOnly 5) [] = (Inr r, [CreateClient, CreateSession,
               ScoreTask ''bu-session-12345'' ''Original text'', DeleteSession ''bu-session-12345''])"
    by (simp add: run_unfold onProgress_def ret_def createBrowserUseClient_def call_apply
          tryBody_def createGrammarlySession_def scoreAndOptimize_def Let_def bindE_def
          runGrammarlyScoreTask_def mockServices_def exampleInput_def finallyBody_result)
  have c: "createSessionR (mockServices [scoresOf 15 3]) 0 = Inr ''bu-session-12345''"
    by (simp add: mockServices_def)
  show ?thesis
    using teardown_never_changes_outcome
      [where env = "mockServices [scoresOf 15 3]"
         and d = "\<lambda>_. Inl (Error ''Teardown failed'')"
         and input = "exampleInput ScoreOnly 5" and calls = "[]"
         and sid = "''bu-session-12345''"] r1 c
    by auto
qed

end
